theory Spec2Isabelle
  imports Complex_Main "HOL-Library.Word"
begin

section \<open>Cat vs Dog classifier: a model of \<open>labs/Laboratorio_6/Streamlit/app.py\<close>\<close>

text \<open>
  The script has three functions (\<open>load_model\<close>, \<open>preprocess_image\<close>, \<open>predict_image\<close>)
  and a render function \<open>main\<close> that Streamlit re-runs on every interaction.  Library
  calls whose code is not part of the repository (HTTP, Keras, PIL decoding, conversion
  and resampling) are parameters of the model, collected in the record \<open>env\<close>; the
  mutable surroundings (files, the resource cache, the session state, what was rendered)
  are the record \<open>world\<close>, passed through every stateful function.  A Python exception is
  a value \<open>Inl e\<close>; the world reached when it was raised is returned beside it.
\<close>

subsection \<open>Exceptions\<close>

datatype error =
    ConnectionError
  | FileNotFoundError
  | KerasLoadError
  | UnidentifiedImageError
  | PredictError
  | IndexError
  | ValueError
  | AttributeError
  | MediaFileStorageError
  | StreamlitAPIException
  | KeyError

subsection \<open>binary32 arithmetic used by the normalisation\<close>

text \<open>
  A finite \<open>np.float32\<close> is modelled by the real number it denotes.  The finite values
  of binary32 are the numbers \<open>m * 2 ^ e\<close> with an integer \<open>m\<close> of magnitude below
  \<open>2 ^ 24\<close> and an exponent \<open>e\<close> from -149 to 104; \<open>is_float32\<close> writes the exponent as
  the difference of two naturals.  \<open>rne n d\<close> is the integer nearest to \<open>n / d\<close>, ties to
  even (the IEEE default rounding), for \<open>d > 0\<close>.
\<close>

type_synonym float32 = real

definition is_float32 :: "real \<Rightarrow> bool" where
  "is_float32 x \<longleftrightarrow>
     (\<exists>(m::int) (a::nat) (b::nat).
         \<bar>m\<bar> < 2 ^ 24 \<and> a \<le> 104 \<and> b \<le> 149 \<and> x = real_of_int m * 2 ^ a / 2 ^ b)"

definition rne :: "int \<Rightarrow> int \<Rightarrow> int" where
  "rne n d =
     (let q = n div d; r = n mod d
      in if 2 * r < d then q
         else if d < 2 * r then q + 1
         else if even q then q else q + 1)"

text \<open>
  \<open>f32_shift n d s\<close> searches upwards from \<open>s\<close> for the first exponent at which
  \<open>n * 2 ^ s / d\<close> has reached \<open>2 ^ 23\<close>, i.e. at which the quotient fills the 24-bit
  significand of binary32.
\<close>

function f32_shift :: "nat \<Rightarrow> nat \<Rightarrow> nat \<Rightarrow> nat" where
  "f32_shift n d s =
     (if 0 < n \<and> n * 2 ^ s < d * 2 ^ 23 then f32_shift n d (Suc s) else s)"
  by pat_completeness auto
termination
proof (relation "measure (\<lambda>(n, d, s). d * 2 ^ 23 - n * 2 ^ s)")
  show "wf (measure (\<lambda>(n, d, s). d * 2 ^ 23 - n * 2 ^ s))"
    by simp
next
  fix n d s :: nat
  assume a: "0 < n \<and> n * 2 ^ s < d * 2 ^ 23"
  then have "0 < n * 2 ^ s"
    by simp
  then have "n * 2 ^ s < n * 2 ^ Suc s"
    by simp
  with a have "d * 2 ^ 23 - n * 2 ^ Suc s < d * 2 ^ 23 - n * 2 ^ s"
    by (intro diff_less_mono2) auto
  then show "((n, d, Suc s), (n, d, s)) \<in> measure (\<lambda>(n, d, s). d * 2 ^ 23 - n * 2 ^ s)"
    by simp
qed

declare f32_shift.simps [simp del]

text \<open>
  \<open>f32_div n d\<close> is the binary32 quotient of two integers that binary32 holds exactly,
  for \<open>0 < d\<close> and \<open>n / d < 2 ^ 24\<close> (no overflow, no subnormal result): the exact quotient
  rounded to 24 significant bits.  This is \<open>np.float32(n) / np.float32(d)\<close>.
\<close>

definition f32_div :: "nat \<Rightarrow> nat \<Rightarrow> float32" where
  "f32_div n d =
     (let s = f32_shift n d 0
      in real_of_int (rne (int n * 2 ^ s) (int d)) / 2 ^ s)"

subsection \<open>PIL images and NumPy arrays\<close>

text \<open>
  A PIL image has a mode, a size (width, height) and a raster.  The raster is kept the
  way \<open>np.array(image)\<close> lays it out: rows, then pixels, then the samples of a pixel.
  Samples are bytes; the wider samples of the modes I, F and I;16 are not represented
  (the program never reads a sample of an image before it is converted to RGB).
\<close>

record image =
  mode :: string
  size_wh :: "nat \<times> nat"
  pixels :: "8 word list list list"

text \<open>\<open>Image.getbands\<close>, as a count: every mode not listed has a single band.\<close>

definition getbands :: "string \<Rightarrow> nat" where
  "getbands m =
     (if m \<in> set [''RGB'', ''YCbCr'', ''LAB'', ''HSV''] then 3
      else if m \<in> set [''RGBA'', ''CMYK'', ''RGBX'', ''RGBa''] then 4
      else if m \<in> set [''LA'', ''PA'', ''La''] then 2
      else 1)"

text \<open>The raster of a well-formed image has \<open>height\<close> rows of \<open>width\<close> pixels, each
  with one sample per band of the mode.\<close>

definition wf_image :: "image \<Rightarrow> bool" where
  "wf_image im \<longleftrightarrow>
     length (pixels im) = snd (size_wh im) \<and>
     list_all (\<lambda>row. length row = fst (size_wh im) \<and>
                 list_all (\<lambda>px. length px = getbands (mode im)) row) (pixels im)"

text \<open>\<open>np.array(image)\<close>: a uint8 array of shape (height, width, bands).\<close>

definition np_array :: "image \<Rightarrow> 8 word list list list" where
  "np_array im = pixels im"

type_synonym tensor = "float32 list list list list"

text \<open>\<open>img_array.astype(np.float32) / 255.0\<close>: the conversion of a byte to binary32 is
  exact, the division rounds.\<close>

definition normalise_u8 :: "8 word list list list \<Rightarrow> float32 list list list" where
  "normalise_u8 a = map (map (map (\<lambda>b. f32_div (unat b) 255))) a"

text \<open>\<open>np.expand_dims(img_array, axis=0)\<close>\<close>

definition expand_dims0 :: "'a \<Rightarrow> 'a list" where
  "expand_dims0 a = [a]"

text \<open>The shape of a four-dimensional array given as nested lists: \<open>Some (n, h, w, c)\<close>
  when the nesting is regular and no axis is empty, \<open>None\<close> otherwise.\<close>

definition uniform :: "nat list \<Rightarrow> nat option" where
  "uniform ns = (case ns of [] \<Rightarrow> None | n # rest \<Rightarrow> if list_all (\<lambda>k. k = n) rest then Some n else None)"

definition shape4 :: "'a list list list list \<Rightarrow> (nat \<times> nat \<times> nat \<times> nat) option" where
  "shape4 t =
     (case (uniform (map length t),
            uniform (map length (concat t)),
            uniform (map length (concat (concat t)))) of
        (Some h, Some w, Some c) \<Rightarrow> Some (length t, h, w, c)
      | _ \<Rightarrow> None)"

definition entries :: "'a list list list list \<Rightarrow> 'a list" where
  "entries t = concat (concat (concat t))"

subsection \<open>The surroundings of the script\<close>

type_synonym bytes = "8 word list"

record response =
  status_code :: nat
  content :: bytes

text \<open>What \<open>st.file_uploader\<close> returns when a file is present.\<close>

record uploaded_file =
  file_id :: string
  file_data :: bytes

text \<open>
  The library calls, as parameters.  \<open>requests_get k url\<close> is the outcome of
  \<open>requests.get(url)\<close> when \<open>k\<close> requests were made before it, so that the network may
  answer differently each time.  \<open>keras_load_model\<close> is \<open>tf.keras.models.load_model\<close> on
  the content of the file: it returns a model object or raises.  \<open>image_decode\<close> is what
  \<open>Image.open\<close> makes of a file's content.  \<open>convert\<close> and \<open>resize\<close> are PIL's
  \<open>Image.convert\<close> and \<open>Image.resize\<close>, which return a new image or raise (\<open>convert\<close>
  raises \<open>ValueError\<close> when PIL has no conversion between the two modes).
\<close>

record 'm env =
  requests_get :: "nat \<Rightarrow> string \<Rightarrow> error + response"
  keras_load_model :: "bytes \<Rightarrow> error + 'm"
  model_predict :: "'m \<Rightarrow> tensor \<Rightarrow> error + float32 list list"
  model_summary :: "'m \<Rightarrow> string list"
  image_decode :: "bytes \<Rightarrow> error + image"
  convert :: "image \<Rightarrow> string \<Rightarrow> error + image"
  resize :: "image \<Rightarrow> nat \<times> nat \<Rightarrow> error + image"

text \<open>Values stored in \<open>st.session_state\<close>.\<close>

datatype pyval = PyNone | PyImage image | PyStr string

text \<open>Calls of \<open>preprocess_image\<close> and of \<open>model.predict\<close>, recorded in the order made.\<close>

datatype 'm call = Call_preprocess_image image | Call_model_predict 'm tensor

text \<open>What the page shows.  Texts are identified by a constructor or abbreviated to ASCII.\<close>

datatype message =
    No_se_pudo_cargar_el_modelo
  | Modelo_cargado_correctamente
  | Alta_confianza string
  | Confianza_media string
  | Baja_confianza

datatype ui =
    St_title
  | St_markdown string
  | St_error message
  | St_success message
  | St_warning message
  | St_header string
  | St_subheader string
  | St_info
  | St_checkbox
  | St_text "string list"
  | St_file_uploader
  | St_button string
  | St_image_path string
  | St_image pyval
  | St_image_array "float32 list list list"
  | St_metric_prediccion string
  | St_metric_confianza float32
  | St_progress float32
  | St_bar_chart "(string \<times> float32) list"

text \<open>
  \<open>fs\<close> is the local disk, \<open>requests\<close> the URLs fetched so far, \<open>resource_cache\<close> the entry
  that \<open>@st.cache_resource\<close> keeps for \<open>load_model\<close> (\<open>None\<close>: no entry; \<open>Some v\<close>: the
  value \<open>v\<close> that the function returned, where \<open>v = None\<close> is Python's \<open>None\<close>).
\<close>

record 'm world =
  fs :: "string \<rightharpoonup> bytes"
  requests :: "string list"
  resource_cache :: "'m option option"
  session_state :: "string \<rightharpoonup> pyval"
  calls :: "'m call list"
  screen :: "ui list"

text \<open>The values of the widgets in one run of the script.\<close>

record widgets =
  ver_arquitectura :: bool
  uploaded :: "uploaded_file option"
  usar_gato :: bool
  usar_perro :: bool
  usar_otro_perro :: bool
  clasificar :: bool

subsection \<open>Sequencing with exceptions\<close>

type_synonym ('s, 'a) prog = "'s \<Rightarrow> (error + 'a) \<times> 's"

definition returnE :: "'a \<Rightarrow> ('s, 'a) prog" where
  "returnE x s = (Inr x, s)"

definition raiseE :: "error \<Rightarrow> ('s, 'a) prog" where
  "raiseE e s = (Inl e, s)"

definition bindE :: "('s, 'a) prog \<Rightarrow> ('a \<Rightarrow> ('s, 'b) prog) \<Rightarrow> ('s, 'b) prog" where
  "bindE f g s = (case f s of (Inl e, s1) \<Rightarrow> (Inl e, s1) | (Inr x, s1) \<Rightarrow> g x s1)"

definition thenE :: "('s, 'a) prog \<Rightarrow> ('s, 'b) prog \<Rightarrow> ('s, 'b) prog" where
  "thenE f g = bindE f (\<lambda>_. g)"

definition render :: "ui \<Rightarrow> ('m world, unit) prog" where
  "render u w = (Inr (), w\<lparr>screen := screen w @ [u]\<rparr>)"

subsection \<open>\<open>load_model\<close> (lines 16-30)\<close>

definition model_url :: string where
  "model_url = ''https://huggingface.co/nicolastibata/my_cat_dog_model/resolve/main/my_cat_dog_model.keras''"

definition model_path :: string where
  "model_path = ''my_cat_dog_model.keras''"

text \<open>\<open>requests.get(model_url)\<close>: the request is recorded whether or not it succeeds.\<close>

definition http_get :: "'m env \<Rightarrow> string \<Rightarrow> ('m world, response) prog" where
  "http_get E url w =
     (requests_get E (length (requests w)) url, w\<lparr>requests := requests w @ [url]\<rparr>)"

text \<open>\<open>with open(path, "wb") as f: f.write(data)\<close>; writing to the disk is taken to succeed.\<close>

definition write_file :: "string \<Rightarrow> bytes \<Rightarrow> ('m world, unit) prog" where
  "write_file path data w = (Inr (), w\<lparr>fs := (fs w)(path \<mapsto> data)\<rparr>)"

definition tf_keras_models_load_model :: "'m env \<Rightarrow> string \<Rightarrow> ('m world, 'm) prog" where
  "tf_keras_models_load_model E path w =
     (case fs w path of
        None \<Rightarrow> (Inl FileNotFoundError, w)
      | Some b \<Rightarrow> (keras_load_model E b, w))"

text \<open>The body of the function, as written; the result is a Python value, \<open>None\<close> being
  Python's \<open>None\<close>.\<close>

definition load_model_body :: "'m env \<Rightarrow> ('m world, 'm option) prog" where
  "load_model_body E =
     bindE (\<lambda>w. if fs w model_path = None
                 then bindE (http_get E model_url)
                        (\<lambda>response. write_file model_path (content response)) w
                 else returnE () w)
       (\<lambda>_. bindE (tf_keras_models_load_model E model_path)
          (\<lambda>m. returnE (Some m)))"

text \<open>\<open>@st.cache_resource\<close>: the body runs when there is no entry; a value it returns is
  stored, an exception it raises is not.\<close>

definition load_model :: "'m env \<Rightarrow> ('m world, 'm option) prog" where
  "load_model E w =
     (case resource_cache w of
        Some v \<Rightarrow> (Inr v, w)
      | None \<Rightarrow>
          (case load_model_body E w of
             (Inl e, w1) \<Rightarrow> (Inl e, w1)
           | (Inr v, w1) \<Rightarrow> (Inr v, w1\<lparr>resource_cache := Some v\<rparr>)))"

subsection \<open>\<open>preprocess_image\<close> (lines 43-63)\<close>

text \<open>
  The default of the parameter \<open>target_size\<close> is \<open>(128, 128)\<close>.  An exception raised by
  \<open>convert\<close> or by \<open>resize\<close> leaves the function; the steps on the array do not raise.
\<close>

definition default_target_sz :: "nat \<times> nat" where
  "default_target_sz = (128, 128)"

definition preprocess_image :: "'m env \<Rightarrow> image \<Rightarrow> nat \<times> nat \<Rightarrow> error + tensor" where
  "preprocess_image E image_in target_sz =
     (case (if mode image_in \<noteq> ''RGB'' then convert E image_in ''RGB'' else Inr image_in) of
        Inl e \<Rightarrow> Inl e
      | Inr img \<Rightarrow>
          (case resize E img target_sz of
             Inl e \<Rightarrow> Inl e
           | Inr img \<Rightarrow>
               (let img_array = np_array img;
                    img_array = normalise_u8 img_array;
                    img_array = expand_dims0 img_array
                in Inr img_array)))"

text \<open>The call as the script makes it: on a value that is not an image, reading \<open>.mode\<close>
  raises.\<close>

definition call_preprocess_image :: "'m env \<Rightarrow> pyval \<Rightarrow> ('m world, tensor) prog" where
  "call_preprocess_image E v w =
     (case v of
        PyImage img \<Rightarrow>
          (preprocess_image E img default_target_sz,
           w\<lparr>calls := calls w @ [Call_preprocess_image img]\<rparr>)
      | _ \<Rightarrow> (Inl AttributeError, w))"

subsection \<open>\<open>predict_image\<close> (lines 65-75)\<close>

definition call_model_predict :: "'m env \<Rightarrow> 'm \<Rightarrow> tensor \<Rightarrow> ('m world, float32 list list) prog" where
  "call_model_predict E model t w =
     (model_predict E model t, w\<lparr>calls := calls w @ [Call_model_predict model t]\<rparr>)"

text \<open>\<open>np.argmax\<close> of a one-dimensional array: the first index of a largest entry.
  \<open>argmax_from xs i best v\<close> scans \<open>xs\<close>, whose first entry has index \<open>i\<close>, with \<open>best\<close>
  the index of the largest entry \<open>v\<close> seen before.\<close>

fun argmax_from :: "real list \<Rightarrow> nat \<Rightarrow> nat \<Rightarrow> real \<Rightarrow> nat" where
  "argmax_from [] i best v = best"
| "argmax_from (x # xs) i best v =
     (if v < x then argmax_from xs (Suc i) i x else argmax_from xs (Suc i) best v)"

definition np_argmax :: "real list \<Rightarrow> error + nat" where
  "np_argmax xs = (case xs of [] \<Rightarrow> Inl ValueError | x # rest \<Rightarrow> Inr (argmax_from rest 1 0 x))"

text \<open>The two labels end in an emoji, written here as its UTF-8 bytes.\<close>

definition cat_face :: string where
  "cat_face = [CHR 0xF0, CHR 0x9F, CHR 0x90, CHR 0xB1]"

definition dog_face :: string where
  "dog_face = [CHR 0xF0, CHR 0x9F, CHR 0x90, CHR 0xB6]"

definition class_names :: "string list" where
  "class_names = [''Gato '' @ cat_face, ''Perro '' @ dog_face]"

text \<open>Indexing with a non-negative index, as Python does it.\<close>

definition index :: "'a list \<Rightarrow> nat \<Rightarrow> ('s, 'a) prog" where
  "index xs i = (if i < length xs then returnE (xs ! i) else raiseE IndexError)"

definition predict_image ::
  "'m env \<Rightarrow> 'm \<Rightarrow> pyval \<Rightarrow> ('m world, string \<times> float32 \<times> float32 list) prog" where
  "predict_image E model img =
     bindE (call_preprocess_image E img) (\<lambda>processed_image.
     bindE (call_model_predict E model processed_image) (\<lambda>prediction.
     bindE (index prediction 0) (\<lambda>prediction0.
     bindE (\<lambda>w. (np_argmax prediction0, w)) (\<lambda>predicted_class.
     bindE (index prediction0 predicted_class) (\<lambda>confidence.
     bindE (index class_names predicted_class) (\<lambda>name.
     returnE (name, confidence, prediction0)))))))"

subsection \<open>\<open>main\<close> (lines 78-229)\<close>

text \<open>\<open>st.session_state.get(key)\<close>, \<open>st.session_state.key = v\<close> and \<open>st.session_state.key\<close>.\<close>

definition session_get :: "'m world \<Rightarrow> string \<Rightarrow> pyval" where
  "session_get w k = (case session_state w k of None \<Rightarrow> PyNone | Some v \<Rightarrow> v)"

definition session_set :: "string \<Rightarrow> pyval \<Rightarrow> ('m world, unit) prog" where
  "session_set k v w = (Inr (), w\<lparr>session_state := (session_state w)(k \<mapsto> v)\<rparr>)"

definition session_attr :: "string \<Rightarrow> ('m world, pyval) prog" where
  "session_attr k w =
     (case session_state w k of None \<Rightarrow> (Inl AttributeError, w) | Some v \<Rightarrow> (Inr v, w))"

text \<open>\<open>Image.open\<close> of an uploaded file and of a path on the disk.\<close>

definition Image_open_upload :: "'m env \<Rightarrow> uploaded_file \<Rightarrow> ('m world, image) prog" where
  "Image_open_upload E f w = (image_decode E (file_data f), w)"

definition Image_open_path :: "'m env \<Rightarrow> string \<Rightarrow> ('m world, image) prog" where
  "Image_open_path E path w =
     (case fs w path of
        None \<Rightarrow> (Inl FileNotFoundError, w)
      | Some b \<Rightarrow> (image_decode E b, w))"

text \<open>Truth value of a Python value in a condition.\<close>

definition truthy :: "pyval \<Rightarrow> bool" where
  "truthy v = (case v of PyNone \<Rightarrow> False | PyImage _ \<Rightarrow> True | PyStr s \<Rightarrow> s \<noteq> [])"

text \<open>The sidebar (lines 92-109).\<close>

definition sidebar :: "'m env \<Rightarrow> 'm \<Rightarrow> bool \<Rightarrow> ('m world, unit) prog" where
  "sidebar E model checked =
     thenE (render (St_header ''Informacion del Modelo''))
    (thenE (render St_info)
    (thenE (render St_checkbox)
    (if checked
     then thenE (render (St_text [''Capas del modelo:'']))
                (render (St_text (model_summary E model)))
     else returnE ())))"

text \<open>Lines 114-117.\<close>

definition init_session_state :: "('m world, unit) prog" where
  "init_session_state =
     thenE (\<lambda>w. if session_state w ''image_to_predict'' = None
                 then session_set ''image_to_predict'' PyNone w else returnE () w)
           (\<lambda>w. if session_state w ''last_uploaded_file_id'' = None
                 then session_set ''last_uploaded_file_id'' PyNone w else returnE () w)"

text \<open>The upload handler (lines 126-129).\<close>

definition upload_handler :: "'m env \<Rightarrow> uploaded_file option \<Rightarrow> ('m world, unit) prog" where
  "upload_handler E up w =
     (case up of
        None \<Rightarrow> returnE () w
      | Some f \<Rightarrow>
          if PyStr (file_id f) \<noteq> session_get w ''last_uploaded_file_id''
          then bindE (Image_open_upload E f) (\<lambda>img.
               thenE (session_set ''image_to_predict'' (PyImage img))
                     (session_set ''last_uploaded_file_id'' (PyStr (file_id f)))) w
          else returnE () w)"

text \<open>The bundled samples (lines 136-140) and \<open>set_sample_image\<close> (lines 142-149).\<close>

definition sample_images :: "(string \<times> string) list" where
  "sample_images = [(''Gato'', ''cat.jpg''), (''Perro'', ''dog1.png''), (''Otro Perro'', ''dog2.png'')]"

definition dict_get :: "('k \<times> 'v) list \<Rightarrow> 'k \<Rightarrow> ('s, 'v) prog" where
  "dict_get d k = (case map_of d k of None \<Rightarrow> raiseE KeyError | Some v \<Rightarrow> returnE v)"

definition set_sample_image ::
  "'m env \<Rightarrow> uploaded_file option \<Rightarrow> string \<Rightarrow> ('m world, unit) prog" where
  "set_sample_image E up path =
     bindE (Image_open_path E path) (\<lambda>img.
     thenE (session_set ''image_to_predict'' (PyImage img))
           (case up of
              Some f \<Rightarrow> session_set ''last_uploaded_file_id'' (PyStr (file_id f))
            | None \<Rightarrow> session_set ''last_uploaded_file_id'' PyNone))"

text \<open>\<open>st.image(path)\<close> reads the file and raises when it cannot.\<close>

definition st_image_path :: "string \<Rightarrow> ('m world, unit) prog" where
  "st_image_path path w =
     (if fs w path = None then (Inl MediaFileStorageError, w) else render (St_image_path path) w)"

text \<open>One of the three columns (lines 152-165).\<close>

definition sample_column ::
  "'m env \<Rightarrow> uploaded_file option \<Rightarrow> string \<Rightarrow> string \<Rightarrow> bool \<Rightarrow> ('m world, unit) prog" where
  "sample_column E up key label clicked =
     bindE (dict_get sample_images key) (\<lambda>path.
     thenE (st_image_path path)
    (thenE (render (St_button label))
    (if clicked
     then bindE (dict_get sample_images key) (set_sample_image E up)
     else returnE ())))"

text \<open>Lines 170-181.\<close>

definition show_image :: "'m env \<Rightarrow> pyval \<Rightarrow> ('m world, unit) prog" where
  "show_image E image_to_predict =
     (if truthy image_to_predict
      then thenE (render (St_markdown ''---''))
          (thenE (render (St_subheader ''Imagen a Clasificar''))
          (thenE (render (St_image image_to_predict))
          (thenE (render (St_subheader ''Imagen Procesada''))
          (bindE (call_preprocess_image E image_to_predict) (\<lambda>processed_display.
           bindE (index processed_display 0) (\<lambda>a.
           render (St_image_array a)))))))
      else returnE ())"

text \<open>\<open>str.lower\<close>: bytes outside A-Z are left as they are.\<close>

definition lower :: "string \<Rightarrow> string" where
  "lower s =
     map (\<lambda>c. let n = (of_char c :: nat) in if 65 \<le> n \<and> n \<le> 90 then char_of (n + 32) else c) s"

text \<open>
  The interpretation (lines 224-229).  The confidence is an \<open>np.float32\<close> and the
  thresholds are Python literals: NumPy (version 2) compares the two in binary32, with
  the literal rounded to binary32 first.  \<open>f32_div 8 10\<close> and \<open>f32_div 6 10\<close> are the
  binary32 values nearest to 0.8 and to 0.6, which is also what the doubles \<open>0.8\<close> and
  \<open>0.6\<close> round to.
\<close>

definition interpretacion :: "float32 \<Rightarrow> string \<Rightarrow> ui" where
  "interpretacion confidence predicted_class =
     (if confidence > f32_div 8 10
      then St_success (Alta_confianza (lower predicted_class))
      else if confidence > f32_div 6 10
      then St_warning (Confianza_media (lower predicted_class))
      else St_error Baja_confianza)"

text \<open>The elements that are one of the three interpretation messages.\<close>

definition is_interpretation :: "ui \<Rightarrow> bool" where
  "is_interpretation u =
     (case u of
        St_success (Alta_confianza _) \<Rightarrow> True
      | St_warning (Confianza_media _) \<Rightarrow> True
      | St_error Baja_confianza \<Rightarrow> True
      | _ \<Rightarrow> False)"

text \<open>\<open>st.progress\<close> takes a value between 0 and 1 and raises on any other.\<close>

definition st_progress :: "float32 \<Rightarrow> ('m world, unit) prog" where
  "st_progress v =
     (if 0 \<le> v \<and> v \<le> 1 then render (St_progress v) else raiseE StreamlitAPIException)"

text \<open>\<open>pd.DataFrame(prob_data)\<close> needs columns of one length; then the chart is drawn.\<close>

definition bar_chart :: "string list \<Rightarrow> float32 list \<Rightarrow> ('m world, unit) prog" where
  "bar_chart names all_predictions =
     (if length all_predictions = length names
      then render (St_bar_chart (zip names all_predictions))
      else raiseE ValueError)"

text \<open>Lines 190-229.\<close>

definition show_results :: "string \<Rightarrow> float32 \<Rightarrow> float32 list \<Rightarrow> ('m world, unit) prog" where
  "show_results predicted_class confidence all_predictions =
     thenE (render (St_markdown ''---''))
    (thenE (render (St_subheader ''Resultados''))
    (thenE (render (St_metric_prediccion predicted_class))
    (thenE (render (St_metric_confianza confidence))
    (thenE (st_progress confidence)
    (thenE (render (St_subheader ''Distribucion de Probabilidades''))
    (thenE (bar_chart class_names all_predictions)
    (thenE (render (St_subheader ''Interpretacion''))
           (render (interpretacion confidence predicted_class)))))))))"

text \<open>Lines 184-188: the button exists only when there is an image.\<close>

definition classify :: "'m env \<Rightarrow> 'm \<Rightarrow> pyval \<Rightarrow> bool \<Rightarrow> ('m world, unit) prog" where
  "classify E model image_to_predict clicked =
     (if image_to_predict \<noteq> PyNone
      then thenE (render (St_button ''Clasificar Imagen''))
          (if clicked
           then bindE (predict_image E model image_to_predict)
                  (\<lambda>(predicted_class, confidence, all_predictions).
                     show_results predicted_class confidence all_predictions)
           else returnE ())
      else returnE ())"

text \<open>Lines 89-229, reached when the loaded model is not \<open>None\<close>.\<close>

definition main_loaded :: "'m env \<Rightarrow> widgets \<Rightarrow> 'm \<Rightarrow> ('m world, unit) prog" where
  "main_loaded E inp m =
     thenE (render (St_success Modelo_cargado_correctamente))
    (thenE (sidebar E m (ver_arquitectura inp))
    (thenE init_session_state
    (thenE (render (St_header ''Subir imagen''))
    (thenE (render St_file_uploader)
    (thenE (upload_handler E (uploaded inp))
    (thenE (render (St_markdown ''### O prueba con estas imagenes de ejemplo:''))
    (thenE (sample_column E (uploaded inp) ''Gato'' ''Usar Gato'' (usar_gato inp))
    (thenE (sample_column E (uploaded inp) ''Perro'' ''Usar Perro'' (usar_perro inp))
    (thenE (sample_column E (uploaded inp) ''Otro Perro'' ''Usar Otro Perro''
              (usar_otro_perro inp))
    (bindE (session_attr ''image_to_predict'') (\<lambda>image_to_predict.
     thenE (show_image E image_to_predict)
           (classify E m image_to_predict (clasificar inp)))))))))))))"

text \<open>Lines 78-87: the title, the model, and the early return when it is \<open>None\<close>.\<close>

definition main :: "'m env \<Rightarrow> widgets \<Rightarrow> ('m world, unit) prog" where
  "main E inp =
     thenE (render St_title)
    (thenE (render (St_markdown ''---''))
    (bindE (load_model E) (\<lambda>model.
       case model of
         None \<Rightarrow> render (St_error No_se_pudo_cargar_el_modelo)
       | Some m \<Rightarrow> main_loaded E inp m)))"

text \<open>The script from top to bottom: line 33, then \<open>main()\<close> (line 233).\<close>

definition script :: "'m env \<Rightarrow> widgets \<Rightarrow> ('m world, unit) prog" where
  "script E inp = thenE (load_model E) (main E inp)"

text \<open>Any number of further invocations of \<open>load_model\<close>, one after the other.\<close>

fun load_model_times :: "nat \<Rightarrow> 'm env \<Rightarrow> 'm world \<Rightarrow> 'm world" where
  "load_model_times 0 E w = w"
| "load_model_times (Suc n) E w = load_model_times n E (snd (load_model E w))"

subsection \<open>A concrete library and concrete worlds\<close>

text \<open>
  An instance of the parameters on which the definitions can be run: a nearest-neighbour
  \<open>resize\<close>, a \<open>convert\<close> that repeats or drops samples and, as PIL does, raises
  \<open>ValueError\<close> on an image of mode La (premultiplied alpha) unless the target is LA,
  the one conversion PIL has from that mode; a decoder that reads the bytes of a file as
  one row of grey pixels, a Keras that accepts exactly the two-byte file \<open>PK\<close> and
  answers with model number 7, and a server that delivers that file.
\<close>

definition pixel_at :: "image \<Rightarrow> nat \<Rightarrow> nat \<Rightarrow> 8 word list" where
  "pixel_at im x y =
     (if y < length (pixels im) \<and> x < length (pixels im ! y) \<and>
         length (pixels im ! y ! x) = getbands (mode im)
      then pixels im ! y ! x
      else replicate (getbands (mode im)) 0)"

definition nearest_resize :: "image \<Rightarrow> nat \<times> nat \<Rightarrow> image" where
  "nearest_resize im sz =
     \<lparr>mode = mode im, size_wh = sz,
      pixels = map (\<lambda>y. map (\<lambda>x. pixel_at im (x * fst (size_wh im) div fst sz)
                                              (y * snd (size_wh im) div snd sz))
                             [0..<fst sz])
                   [0..<snd sz]\<rparr>"

definition simple_convert :: "image \<Rightarrow> string \<Rightarrow> error + image" where
  "simple_convert im m =
     (if mode im = ''La'' \<and> m \<noteq> ''LA'' then Inl ValueError
      else Inr \<lparr>mode = m, size_wh = size_wh im,
                pixels = map (map (\<lambda>px. take (getbands m)
                           (px @ replicate (getbands m) (if px = [] then 0 else last px))))
                         (pixels im)\<rparr>)"

definition grey_row :: "bytes \<Rightarrow> image" where
  "grey_row b = \<lparr>mode = ''L'', size_wh = (length b, 1), pixels = [map (\<lambda>x. [x]) b]\<rparr>"

text \<open>\<open>Image.new('La', (5, 7))\<close>: five by seven pixels of two zero samples.\<close>

definition la_image :: image where
  "la_image = \<lparr>mode = ''La'', size_wh = (5, 7), pixels = replicate 7 (replicate 5 [0, 0])\<rparr>"

definition demo_env :: "nat env" where
  "demo_env =
     \<lparr>requests_get = (\<lambda>k url. if url = model_url
                                then Inr \<lparr>status_code = 200, content = [0x50, 0x4B]\<rparr>
                                else Inl ConnectionError),
      keras_load_model = (\<lambda>b. if b = [0x50, 0x4B] then Inr 7 else Inl KerasLoadError),
      model_predict = (\<lambda>m t. Inr [[1 / 4, 3 / 4]]),
      model_summary = (\<lambda>m. [''conv2d'', ''dense'']),
      image_decode = (\<lambda>b. if b = [] then Inl UnidentifiedImageError else Inr (grey_row b)),
      convert = simple_convert,
      resize = (\<lambda>im sz. Inr (nearest_resize im sz))\<rparr>"

text \<open>The same library behind a server that answers 404 with an HTML page.\<close>

definition not_found_env :: "nat env" where
  "not_found_env =
     demo_env\<lparr>requests_get := (\<lambda>k url. Inr \<lparr>status_code = 404, content = [0x3C, 0x68, 0x3E]\<rparr>)\<rparr>"

text \<open>A process that has just started in an empty directory, and one that finds a
  truncated (empty) model file.\<close>

definition fresh_world :: "nat world" where
  "fresh_world =
     \<lparr>fs = Map.empty, requests = [], resource_cache = None, session_state = Map.empty,
      calls = [], screen = []\<rparr>"

definition truncated_file_world :: "nat world" where
  "truncated_file_world = fresh_world\<lparr>fs := [model_path \<mapsto> []]\<rparr>"

definition no_widgets :: widgets where
  "no_widgets =
     \<lparr>ver_arquitectura = False, uploaded = None, usar_gato = False, usar_perro = False,
      usar_otro_perro = False, clasificar = False\<rparr>"

subsection \<open>Notions used in the proofs\<close>

text \<open>\<open>keeps P f\<close>: a run of \<open>f\<close> from a state with \<open>P\<close> ends in a state with \<open>P\<close>, whether
  it returns or raises.  \<open>commutes u f\<close>: changing the state by \<open>u\<close> before or after \<open>f\<close>
  makes no difference, so \<open>f\<close> neither reads nor writes what \<open>u\<close> changes.\<close>

definition keeps :: "('s \<Rightarrow> bool) \<Rightarrow> ('s, 'a) prog \<Rightarrow> bool" where
  "keeps P f \<longleftrightarrow> (\<forall>s. P s \<longrightarrow> P (snd (f s)))"

definition commutes :: "('s \<Rightarrow> 's) \<Rightarrow> ('s, 'a) prog \<Rightarrow> bool" where
  "commutes u f \<longleftrightarrow> (\<forall>s. f (u s) = (fst (f s), u (snd (f s))))"

text \<open>Setting or removing an entry of \<open>st.session_state\<close> from outside.\<close>

definition set_key :: "string \<Rightarrow> pyval option \<Rightarrow> 'm world \<Rightarrow> 'm world" where
  "set_key k v w = w\<lparr>session_state := (session_state w)(k := v)\<rparr>"

text \<open>A property of the world is \<open>quiet\<close> when it survives every change of the session
  state, every recorded call, and the rendering of anything but the load-failure message.\<close>

definition quiet :: "('m world \<Rightarrow> bool) \<Rightarrow> bool" where
  "quiet P \<longleftrightarrow>
     (\<forall>w x. P w \<longrightarrow> P (w\<lparr>session_state := x\<rparr>)) \<and>
     (\<forall>w x. P w \<longrightarrow> P (w\<lparr>calls := x\<rparr>)) \<and>
     (\<forall>w u. u \<noteq> St_error No_se_pudo_cargar_el_modelo \<longrightarrow> P w \<longrightarrow>
            P (w\<lparr>screen := screen w @ [u]\<rparr>))"

section \<open>Properties\<close>

subsection \<open>Rounding stays inside the unit interval\<close>

lemma rne_le:
  assumes "0 < d" and "n \<le> d * k"
  shows "rne n d \<le> k"
proof -
  have q: "n div d \<le> k"
  proof -
    have "n div d \<le> (d * k) div d"
      using assms by (intro zdiv_mono1) auto
    then show ?thesis
      using assms(1) by simp
  qed
  show ?thesis
  proof (cases "n div d < k")
    case True
    then show ?thesis
      by (simp add: rne_def Let_def)
  next
    case False
    with q have e: "n div d = k"
      by simp
    have "d * (n div d) + n mod d = n"
      by simp
    moreover have "0 \<le> n mod d"
      using assms(1) by simp
    ultimately have "d * (n div d) \<le> n"
      by linarith
    with e assms(2) have "n = d * k"
      by simp
    then have "n mod d = 0"
      by simp
    with e assms(1) show ?thesis
      by (simp add: rne_def Let_def)
  qed
qed

lemma rne_nonneg:
  assumes "0 < d" and "0 \<le> n"
  shows "0 \<le> rne n d"
proof -
  have "0 \<le> n div d"
    using assms by (simp add: pos_imp_zdiv_nonneg_iff)
  then show ?thesis
    by (simp add: rne_def Let_def)
qed

lemma f32_div_range:
  assumes "0 < d" and "n \<le> d"
  shows "0 \<le> f32_div n d \<and> f32_div n d \<le> 1"
proof -
  define s where "s = f32_shift n d 0"
  have a: "0 \<le> rne (int n * 2 ^ s) (int d)"
    using assms by (intro rne_nonneg) auto
  have "int n * 2 ^ s \<le> int d * 2 ^ s"
    using assms by (simp add: mult_right_mono)
  then have b: "rne (int n * 2 ^ s) (int d) \<le> 2 ^ s"
    using assms by (intro rne_le) auto
  have "real_of_int (rne (int n * 2 ^ s) (int d)) \<le> real_of_int (2 ^ s)"
    using b by (simp only: of_int_le_iff)
  then have c: "real_of_int (rne (int n * 2 ^ s) (int d)) / 2 ^ s \<le> 1"
    by (simp add: divide_le_eq)
  from a c show ?thesis
    by (simp add: f32_div_def Let_def s_def[symmetric])
qed

text \<open>The rounding at work: 128 / 255 is not a binary32, its neighbour is returned.\<close>

lemma f32_div_128_255: "f32_div 128 255 = 8421505 / 2 ^ 24"
  by (simp add: f32_div_def f32_shift.simps rne_def Let_def)

lemma f32_div_255_255: "f32_div 255 255 = 1"
  by (simp add: f32_div_def f32_shift.simps rne_def Let_def)



subsection \<open>The quotient is a binary32 value\<close>

lemma f32_shift_le:
  assumes "d * 2 ^ 23 \<le> 2 ^ K"
  shows "f32_shift n d s \<le> max s K"
  using assms
proof (induction n d s rule: f32_shift.induct)
  case (1 n d s)
  show ?case
  proof (cases "0 < n \<and> n * 2 ^ s < d * 2 ^ 23")
    case True
    have "(2::nat) ^ s \<le> n * 2 ^ s"
      using True by simp
    also have "\<dots> < d * 2 ^ 23"
      using True by simp
    also have "\<dots> \<le> 2 ^ K"
      by (rule "1.prems")
    finally have "s < K"
      by simp
    moreover have "f32_shift n d (Suc s) \<le> max (Suc s) K"
      using True "1.prems" by (intro "1.IH") auto
    moreover have "f32_shift n d s = f32_shift n d (Suc s)"
      using True by (subst f32_shift.simps) simp
    ultimately show ?thesis
      by simp
  next
    case False
    then have "f32_shift n d s = s"
      by (subst f32_shift.simps) auto
    then show ?thesis
      by simp
  qed
qed

lemma f32_shift_scaled:
  assumes "n * 2 ^ s \<le> d * 2 ^ 24"
  shows "n * 2 ^ f32_shift n d s \<le> d * 2 ^ 24"
  using assms
proof (induction n d s rule: f32_shift.induct)
  case (1 n d s)
  show ?case
  proof (cases "0 < n \<and> n * 2 ^ s < d * 2 ^ 23")
    case True
    then have "n * 2 ^ Suc s \<le> d * 2 ^ 24"
      by simp
    then have "n * 2 ^ f32_shift n d (Suc s) \<le> d * 2 ^ 24"
      using True by (intro "1.IH") auto
    moreover have "f32_shift n d s = f32_shift n d (Suc s)"
      using True by (subst f32_shift.simps) simp
    ultimately show ?thesis
      by simp
  next
    case False
    then have "f32_shift n d s = s"
      by (subst f32_shift.simps) auto
    with "1.prems" show ?thesis
      by simp
  qed
qed

lemma is_float32_f32_div:
  assumes "0 < d" and "n \<le> d" and "d * 2 ^ 23 \<le> 2 ^ K" and "K \<le> 149"
  shows "is_float32 (f32_div n d)"
proof -
  define s where "s = f32_shift n d 0"
  define m where "m = rne (int n * 2 ^ s) (int d)"
  have v: "f32_div n d = real_of_int m / 2 ^ s"
    by (simp add: f32_div_def Let_def s_def m_def)
  have sK: "s \<le> 149"
    using f32_shift_le [OF assms(3), of n 0] assms(4) by (simp add: s_def)
  have "n * 2 ^ 0 \<le> d * 2 ^ 24"
    using assms(2) by (simp add: trans_le_add1)
  then have "n * 2 ^ s \<le> d * 2 ^ 24"
    unfolding s_def by (rule f32_shift_scaled)
  then have "int (n * 2 ^ s) \<le> int (d * 2 ^ 24)"
    by (simp only: of_nat_le_iff)
  then have "int n * 2 ^ s \<le> int d * 2 ^ 24"
    by simp
  then have hi: "m \<le> 2 ^ 24"
    unfolding m_def using assms(1) by (intro rne_le) auto
  have lo: "0 \<le> m"
    unfolding m_def using assms(1) by (intro rne_nonneg) auto
  show ?thesis
  proof (cases "m = 2 ^ 24")
    case True
    have "\<bar>(2::int) ^ 23\<bar> < 2 ^ 24 \<and> (1::nat) \<le> 104 \<and> s \<le> 149 \<and>
          f32_div n d = real_of_int (2 ^ 23) * 2 ^ 1 / 2 ^ s"
      using sK True by (simp add: v)
    then show ?thesis
      unfolding is_float32_def by blast
  next
    case False
    with hi lo sK have "\<bar>m\<bar> < 2 ^ 24 \<and> (0::nat) \<le> 104 \<and> s \<le> 149 \<and>
          f32_div n d = real_of_int m * 2 ^ 0 / 2 ^ s"
      by (simp add: v)
    then show ?thesis
      unfolding is_float32_def by blast
  qed
qed

lemma is_float32_byte: "is_float32 (f32_div (unat (b :: 8 word)) 255)"
proof -
  have "unat b < 2 ^ 8"
    using unsigned_less [of b] by simp
  then have "unat b \<le> 255"
    by simp
  then show ?thesis
    by (intro is_float32_f32_div [where K = 31]) auto
qed

subsection \<open>The preprocessed tensor\<close>

lemma uniform_all:
  assumes "ns \<noteq> []" and "\<forall>k\<in>set ns. k = n"
  shows "uniform ns = Some n"
  using assms by (cases ns) (auto simp: uniform_def list_all_iff)

lemma shape4_single:
  assumes "length P = h" and "0 < h" and "0 < w"
    and "\<forall>row\<in>set P. length row = w \<and> (\<forall>px\<in>set row. length px = c)"
  shows "shape4 [P] = Some (1, h, w, c)"
proof -
  have ne: "P \<noteq> []"
    using assms(1,2) by auto
  have u1: "uniform (map length [P]) = Some h"
    using assms(1) by (simp add: uniform_def)
  have u2: "uniform (map length (concat [P])) = Some w"
    using ne assms(4) by (intro uniform_all) auto
  obtain row where r: "row \<in> set P"
    using ne by (cases P) auto
  with assms(3,4) have "row \<noteq> []"
    by auto
  with r have "concat P \<noteq> []"
    by auto
  then have u3: "uniform (map length (concat (concat [P]))) = Some c"
    using assms(4) by (intro uniform_all) auto
  show ?thesis
    by (simp only: shape4_def u1 u2 u3) simp
qed

lemma normalise_u8_rows:
  assumes "\<forall>row\<in>set P. length row = w \<and> (\<forall>px\<in>set row. length px = c)"
  shows "\<forall>row\<in>set (normalise_u8 P). length row = w \<and> (\<forall>px\<in>set row. length px = c)"
  using assms by (auto simp: normalise_u8_def)

lemma normalise_u8_range:
  "\<forall>v\<in>set (concat (concat (normalise_u8 P))). is_float32 v \<and> 0 \<le> v \<and> v \<le> 1"
proof -
  have "is_float32 (f32_div (unat b) 255) \<and>
        0 \<le> f32_div (unat b) 255 \<and> f32_div (unat b) 255 \<le> 1" for b :: "8 word"
  proof -
    have "unat b < 2 ^ 8"
      using unsigned_less [of b] by simp
    then have "unat b \<le> 255"
      by simp
    then have "0 \<le> f32_div (unat b) 255 \<and> f32_div (unat b) 255 \<le> 1"
      by (intro f32_div_range) auto
    then show ?thesis
      using is_float32_byte [of b] by simp
  qed
  then show ?thesis
    by (auto simp: normalise_u8_def)
qed

lemma getbands_RGB: "getbands ''RGB'' = 3"
  by (simp add: getbands_def)

text \<open>An exception of \<open>convert\<close> or of \<open>resize\<close> leaves \<open>preprocess_image\<close>.\<close>

lemma preprocess_image_convert_raises:
  assumes "mode img \<noteq> ''RGB''" and "convert E img ''RGB'' = Inl e"
  shows "preprocess_image E img sz = Inl e"
  using assms by (simp add: preprocess_image_def)

lemma preprocess_image_resize_raises:
  assumes "(if mode img \<noteq> ''RGB'' then convert E img ''RGB'' else Inr img) = Inr im1"
    and "resize E im1 sz = Inl e"
  shows "preprocess_image E img sz = Inl e"
  using assms by (simp add: preprocess_image_def)

lemma wf_la_image: "wf_image la_image"
  by (simp add: wf_image_def la_image_def getbands_def list_all_iff)

text \<open>
  Claim C2, as the code has it.  The claim as stated fails for a mode that PIL does not
  convert to RGB: on the well-formed image \<open>Image.new('La', (5, 7))\<close> the call of
  \<open>convert\<close> raises \<open>ValueError\<close>, and \<open>preprocess_image\<close> raises it instead of returning
  an array.
\<close>

theorem preprocess_image_raises_on_La:
  "wf_image la_image \<and> mode la_image = ''La'' \<and> size_wh la_image = (5, 7) \<and>
   preprocess_image demo_env la_image default_target_sz = Inl ValueError"
  using wf_la_image
  by (simp add: preprocess_image_def la_image_def demo_env_def simple_convert_def)

text \<open>
  Claim C2, amended.  Let PIL keep its contract: when converting a well-formed image to
  RGB returns, the result is a well-formed RGB image, and when resizing a well-formed
  image returns, the result is a well-formed image of the requested size and the same
  mode.  Then for every well-formed input image, of any size and of any mode, for which
  the conversion to RGB (made when the mode is not RGB) and the resize return,
  \<open>preprocess_image\<close> with the default target size returns an array of shape
  (1, 128, 128, 3), every entry of which is a binary32 value between 0 and 1.
\<close>

theorem preprocess_image_shape_and_range:
  assumes "wf_image img"
    and "\<And>im im'. wf_image im \<Longrightarrow> convert E im ''RGB'' = Inr im' \<Longrightarrow>
            wf_image im' \<and> mode im' = ''RGB''"
    and "\<And>im sz im'. wf_image im \<Longrightarrow> resize E im sz = Inr im' \<Longrightarrow>
            wf_image im' \<and> size_wh im' = sz \<and> mode im' = mode im"
    and "(if mode img \<noteq> ''RGB'' then convert E img ''RGB'' else Inr img) = Inr im1"
    and "resize E im1 default_target_sz = Inr im2"
  shows "\<exists>t. preprocess_image E img default_target_sz = Inr t \<and>
             shape4 t = Some (1, 128, 128, 3) \<and>
             list_all (\<lambda>v. is_float32 v \<and> 0 \<le> v \<and> v \<le> 1) (entries t)"
proof -
  have p: "preprocess_image E img default_target_sz = Inr [normalise_u8 (pixels im2)]"
    using assms(4,5)
    by (simp add: preprocess_image_def Let_def np_array_def expand_dims0_def)
  have w1: "wf_image im1 \<and> mode im1 = ''RGB''"
  proof (cases "mode img = ''RGB''")
    case True
    with assms(1,4) show ?thesis
      by simp
  next
    case False
    with assms(4) have "convert E img ''RGB'' = Inr im1"
      by simp
    with assms(1) show ?thesis
      by (rule assms(2))
  qed
  then have w2: "wf_image im2 \<and> size_wh im2 = (128, 128) \<and> mode im2 = ''RGB''"
    using assms(3) [of im1 default_target_sz im2] assms(5)
    by (simp add: default_target_sz_def)
  then have len: "length (pixels im2) = 128"
    and rows: "\<forall>row\<in>set (pixels im2). length row = 128 \<and> (\<forall>px\<in>set row. length px = 3)"
    by (auto simp: wf_image_def list_all_iff getbands_RGB)
  have "shape4 [normalise_u8 (pixels im2)] = Some (1, 128, 128, 3)"
  proof (rule shape4_single)
    show "length (normalise_u8 (pixels im2)) = 128"
      using len by (simp add: normalise_u8_def)
    show "\<forall>row\<in>set (normalise_u8 (pixels im2)).
            length row = 128 \<and> (\<forall>px\<in>set row. length px = 3)"
      using rows by (rule normalise_u8_rows)
  qed simp_all
  moreover have "list_all (\<lambda>v. is_float32 v \<and> 0 \<le> v \<and> v \<le> 1)
                   (entries [normalise_u8 (pixels im2)])"
    using normalise_u8_range [of "pixels im2"] by (simp add: entries_def list_all_iff)
  ultimately show ?thesis
    using p by simp
qed

text \<open>The concrete library keeps the contract, and a grey image of two pixels is
  well-formed and is converted and resized.\<close>

lemma wf_grey_row: "wf_image (grey_row b)"
  by (simp add: wf_image_def grey_row_def getbands_def list_all_iff)

lemma wf_simple_convert:
  assumes "wf_image im" and "simple_convert im m = Inr im'"
  shows "wf_image im' \<and> mode im' = m"
  using assms
  by (auto simp: wf_image_def simple_convert_def list_all_iff min_def split: if_splits)

lemma length_pixel_at: "length (pixel_at im x y) = getbands (mode im)"
  by (simp add: pixel_at_def)

lemma wf_nearest_resize:
  "wf_image (nearest_resize im sz) \<and> size_wh (nearest_resize im sz) = sz \<and>
   mode (nearest_resize im sz) = mode im"
  by (auto simp: wf_image_def nearest_resize_def list_all_iff length_pixel_at)

lemma demo_env_convert:
  assumes "wf_image im" and "convert demo_env im ''RGB'' = Inr im'"
  shows "wf_image im' \<and> mode im' = ''RGB''"
  using assms wf_simple_convert [of im "''RGB''" im'] by (simp add: demo_env_def)

lemma demo_env_resize:
  assumes "wf_image im" and "resize demo_env im sz = Inr im'"
  shows "wf_image im' \<and> size_wh im' = sz \<and> mode im' = mode im"
  using assms wf_nearest_resize [of im sz] by (auto simp: demo_env_def)

lemma demo_env_converts_grey:
  "\<exists>im1. (if mode (grey_row b) \<noteq> ''RGB'' then convert demo_env (grey_row b) ''RGB''
           else Inr (grey_row b)) = Inr im1"
  by (simp add: grey_row_def demo_env_def simple_convert_def)

lemma demo_env_preprocesses_grey:
  "\<exists>t. preprocess_image demo_env (grey_row b) default_target_sz = Inr t"
  by (simp add: preprocess_image_def grey_row_def demo_env_def simple_convert_def Let_def)

theorem preprocess_image_shape_and_range_witness:
  "wf_image (grey_row [10, 200]) \<and>
   (\<exists>t. preprocess_image demo_env (grey_row [10, 200]) default_target_sz = Inr t \<and>
        shape4 t = Some (1, 128, 128, 3) \<and>
        list_all (\<lambda>v. is_float32 v \<and> 0 \<le> v \<and> v \<le> 1) (entries t))"
proof -
  obtain im1 where
    c: "(if mode (grey_row [10, 200]) \<noteq> ''RGB''
         then convert demo_env (grey_row [10, 200]) ''RGB''
         else Inr (grey_row [10, 200])) = Inr im1"
    using demo_env_converts_grey [of "[10, 200]"] by blast
  have r: "resize demo_env im1 default_target_sz = Inr (nearest_resize im1 default_target_sz)"
    by (simp add: demo_env_def)
  show ?thesis
    using preprocess_image_shape_and_range [OF wf_grey_row demo_env_convert demo_env_resize c r]
      wf_grey_row [of "[10, 200]"]
    by simp
qed

subsection \<open>The prediction\<close>

lemmas prog_defs = bindE_def thenE_def returnE_def raiseE_def render_def

text \<open>\<open>np_argmax\<close> returns the first index of a largest entry.\<close>

lemma argmax_from_first_max:
  assumes "best < length pre" and "pre ! best = v"
    and "\<forall>k<length pre. pre ! k \<le> v" and "\<forall>k<best. pre ! k < v"
  shows "argmax_from xs (length pre) best v < length (pre @ xs) \<and>
         (\<forall>k<length (pre @ xs).
             (pre @ xs) ! k \<le> (pre @ xs) ! argmax_from xs (length pre) best v) \<and>
         (\<forall>k<argmax_from xs (length pre) best v.
             (pre @ xs) ! k < (pre @ xs) ! argmax_from xs (length pre) best v)"
  using assms
proof (induction xs arbitrary: pre best v)
  case Nil
  then show ?case by simp
next
  case (Cons x xs)
  show ?case
  proof (cases "v < x")
    case True
    have a: "length pre < length (pre @ [x])" "(pre @ [x]) ! length pre = x"
      by simp_all
    have b: "\<forall>k<length (pre @ [x]). (pre @ [x]) ! k \<le> x"
      using Cons.prems(3) True by (auto simp: nth_append less_Suc_eq)
    have c: "\<forall>k<length pre. (pre @ [x]) ! k < x"
      using Cons.prems(3) True by (auto simp: nth_append intro: le_less_trans)
    from Cons.IH [OF a b c] True show ?thesis
      by simp
  next
    case False
    have a: "best < length (pre @ [x])" "(pre @ [x]) ! best = v"
      using Cons.prems(1,2) by (simp_all add: nth_append)
    have b: "\<forall>k<length (pre @ [x]). (pre @ [x]) ! k \<le> v"
      using Cons.prems(3) False by (auto simp: nth_append less_Suc_eq)
    have c: "\<forall>k<best. (pre @ [x]) ! k < v"
      using Cons.prems(1,4) by (auto simp: nth_append)
    from Cons.IH [OF a b c] False show ?thesis
      by simp
  qed
qed

lemma np_argmax_first_max:
  assumes "np_argmax xs = Inr i"
  shows "i < length xs \<and> (\<forall>k<length xs. xs ! k \<le> xs ! i) \<and> (\<forall>k<i. xs ! k < xs ! i)"
proof (cases xs)
  case Nil
  with assms show ?thesis
    by (simp add: np_argmax_def)
next
  case (Cons x rest)
  with assms have i: "i = argmax_from rest (length [x]) 0 x"
    by (simp add: np_argmax_def)
  show ?thesis
    using argmax_from_first_max [of 0 "[x]" x rest] Cons i by simp
qed

lemma np_argmax_pair: "np_argmax [a, b] = Inr (if a < b then 1 else 0)"
  by (simp add: np_argmax_def)

text \<open>
  Claim C1.  Whenever preprocessing returns a tensor and the model answers it with a pair
  of probabilities (as the first row of its output), \<open>predict_image\<close> returns normally;
  the label it returns is the entry of \<open>class_names\<close> at the argmax index of the pair,
  hence one of the two labels, the confidence is the larger of the two probabilities,
  which is the entry of the pair at that index, and the third component is the pair
  itself.
\<close>

theorem predict_image_label_and_confidence:
  assumes "preprocess_image E img default_target_sz = Inr t"
    and "model_predict E model t = Inr ([p0, p1] # others)"
  shows "\<exists>i. i < 2 \<and> np_argmax [p0, p1] = Inr i \<and> [p0, p1] ! i = max p0 p1 \<and>
             fst (predict_image E model (PyImage img) w) =
               Inr (class_names ! i, max p0 p1, [p0, p1]) \<and>
             class_names ! i \<in> {''Gato '' @ cat_face, ''Perro '' @ dog_face}"
proof (cases "p0 < p1")
  case True
  then have "fst (predict_image E model (PyImage img) w) =
               Inr (class_names ! 1, max p0 p1, [p0, p1])"
    using assms
    by (simp add: predict_image_def prog_defs call_preprocess_image_def call_model_predict_def
        index_def np_argmax_pair class_names_def)
  with True show ?thesis
    by (intro exI [of _ 1]) (simp add: np_argmax_pair class_names_def)
next
  case False
  then have "fst (predict_image E model (PyImage img) w) =
               Inr (class_names ! 0, max p0 p1, [p0, p1])"
    using assms
    by (simp add: predict_image_def prog_defs call_preprocess_image_def call_model_predict_def
        index_def np_argmax_pair class_names_def)
  with False show ?thesis
    by (intro exI [of _ 0]) (simp add: np_argmax_pair class_names_def)
qed

theorem predict_image_label_and_confidence_witness:
  "(\<exists>t. preprocess_image demo_env (grey_row [10, 200]) default_target_sz = Inr t \<and>
        model_predict demo_env 7 t = Inr ([1 / 4, 3 / 4] # [])) \<and>
   fst (predict_image demo_env 7 (PyImage (grey_row [10, 200])) fresh_world) =
     Inr (''Perro '' @ dog_face, 3 / 4, [1 / 4, 3 / 4])"
proof -
  obtain t where p: "preprocess_image demo_env (grey_row [10, 200]) default_target_sz = Inr t"
    using demo_env_preprocesses_grey [of "[10, 200]"] by blast
  have h: "model_predict demo_env 7 t = Inr ([1 / 4, 3 / 4] # [])"
    by (simp add: demo_env_def)
  show ?thesis
    using p h predict_image_label_and_confidence [OF p h, of fresh_world]
    by (auto simp: np_argmax_pair class_names_def)
qed

subsection \<open>One forward pass for each classification\<close>

lemma keeps_bindE:
  assumes "keeps P f" and "\<And>x. keeps P (g x)"
  shows "keeps P (bindE f g)"
  unfolding keeps_def bindE_def
proof (intro allI impI)
  fix s
  assume p: "P s"
  obtain r s1 where fs: "f s = (r, s1)"
    by (cases "f s")
  with assms(1) p have p1: "P s1"
    by (auto simp: keeps_def)
  show "P (snd (case f s of (Inl e, s1) \<Rightarrow> (Inl e, s1) | (Inr x, s1) \<Rightarrow> g x s1))"
  proof (cases r)
    case (Inl e)
    with fs p1 show ?thesis by simp
  next
    case (Inr x)
    with fs p1 assms(2) [of x] show ?thesis by (simp add: keeps_def)
  qed
qed

lemma keeps_thenE: "keeps P f \<Longrightarrow> keeps P g \<Longrightarrow> keeps P (thenE f g)"
  by (simp add: thenE_def keeps_bindE)

lemma keeps_returnE: "keeps P (returnE x)"
  by (simp add: keeps_def returnE_def)

lemma keeps_raiseE: "keeps P (raiseE e)"
  by (simp add: keeps_def raiseE_def)

lemma keeps_if: "keeps P f \<Longrightarrow> keeps P g \<Longrightarrow> keeps P (if c then f else g)"
  by simp

lemma keeps_state_if:
  "keeps P f \<Longrightarrow> keeps P g \<Longrightarrow> keeps P (\<lambda>s. if c s then f s else g s)"
  by (simp add: keeps_def)

lemma keeps_pure: "keeps P (\<lambda>w. (r, w))"
  by (simp add: keeps_def)

lemma keeps_case_option:
  "keeps P f \<Longrightarrow> (\<And>x. keeps P (g x)) \<Longrightarrow> keeps P (case v of None \<Rightarrow> f | Some x \<Rightarrow> g x)"
  by (cases v) simp_all

lemma keeps_index: "keeps P (index xs i)"
  by (simp add: index_def keeps_returnE keeps_raiseE)

lemma keeps_dict_get: "keeps P (dict_get d k)"
  by (simp add: dict_get_def keeps_returnE keeps_raiseE split: option.splits)

lemma keeps_session_attr: "keeps P (session_attr k)"
  by (simp add: keeps_def session_attr_def split: option.splits)

lemma keeps_Image_open_upload: "keeps P (Image_open_upload E f)"
  by (simp add: keeps_def Image_open_upload_def)

lemma keeps_Image_open_path: "keeps P (Image_open_path E p)"
  by (simp add: keeps_def Image_open_path_def split: option.splits)

lemmas keeps_rules =
  keeps_bindE keeps_thenE keeps_returnE keeps_raiseE keeps_if keeps_state_if keeps_pure
  keeps_index keeps_dict_get keeps_session_attr keeps_Image_open_upload keeps_Image_open_path






text \<open>What a classification renders, for a confidence that is a probability and a
  distribution over the two classes: the interpretation comes last, once.\<close>

lemma show_results_screen:
  assumes "0 \<le> c" and "c \<le> 1" and "length ps = 2"
  shows "show_results p c ps w =
     (Inr (),
      w\<lparr>screen := screen w @
         [St_markdown ''---'', St_subheader ''Resultados'', St_metric_prediccion p,
          St_metric_confianza c, St_progress c,
          St_subheader ''Distribucion de Probabilidades'',
          St_bar_chart (zip class_names ps), St_subheader ''Interpretacion'',
          interpretacion c p]\<rparr>)"
  using assms
  by (simp add: show_results_def prog_defs st_progress_def bar_chart_def class_names_def)

subsection \<open>The interpretation of a confidence\<close>


lemma is_interpretation_interpretacion: "is_interpretation (interpretacion c p)"
  by (simp add: interpretacion_def is_interpretation_def)






text \<open>The same on the page: a click whose \<open>predict_image\<close> returns such a confidence and
  distribution renders the button, then the results with their one interpretation.\<close>

lemma classify_renders_interpretacion:
  assumes "0 \<le> c" and "c \<le> 1" and "length ps = 2"
    and "predict_image E model (PyImage img)
           (w\<lparr>screen := screen w @ [St_button ''Clasificar Imagen'']\<rparr>) = (Inr (p, c, ps), w2)"
  shows "fst (classify E model (PyImage img) True w) = Inr () \<and>
         filter is_interpretation
           (drop (length (screen w2)) (screen (snd (classify E model (PyImage img) True w)))) =
           [interpretacion c p]"
  using assms
  by (simp add: classify_def prog_defs show_results_screen is_interpretation_interpretacion)
     (simp add: is_interpretation_def)

subsection \<open>Loading the model\<close>

lemma load_model_body_on_disk:
  assumes "fs w model_path = Some b"
  shows "load_model_body E w =
           (case keras_load_model E b of
              Inl e \<Rightarrow> (Inl e, w)
            | Inr m \<Rightarrow> (Inr (Some m), w))"
  using assms
  by (simp add: load_model_body_def prog_defs tf_keras_models_load_model_def split: sum.splits)

lemma load_model_body_download:
  assumes "fs w model_path = None"
    and "requests_get E (length (requests w)) model_url = Inr resp"
  shows "load_model_body E w =
           (let w1 = w\<lparr>requests := requests w @ [model_url],
                       fs := (fs w)(model_path \<mapsto> content resp)\<rparr>
            in case keras_load_model E (content resp) of
                 Inl e \<Rightarrow> (Inl e, w1)
               | Inr m \<Rightarrow> (Inr (Some m), w1))"
  using assms
  by (simp add: load_model_body_def prog_defs tf_keras_models_load_model_def http_get_def
      write_file_def Let_def split: sum.splits)

lemma load_model_body_never_None: "fst (load_model_body E w) \<noteq> Inr None"
  by (simp add: load_model_body_def prog_defs tf_keras_models_load_model_def http_get_def
      write_file_def split: sum.splits option.splits prod.splits)

lemma load_model_on_disk:
  assumes "fs w model_path = Some b"
  shows "requests (snd (load_model E w)) = requests w \<and> fs (snd (load_model E w)) = fs w"
  using assms
  by (simp add: load_model_def load_model_body_on_disk split: option.splits sum.splits)

lemma load_model_times_on_disk:
  assumes "fs w model_path = Some b"
  shows "requests (load_model_times n E w) = requests w \<and> fs (load_model_times n E w) = fs w"
  using assms
proof (induction n arbitrary: w)
  case 0
  then show ?case by simp
next
  case (Suc n)
  have a: "requests (snd (load_model E w)) = requests w \<and> fs (snd (load_model E w)) = fs w"
    using Suc.prems by (rule load_model_on_disk)
  then have "fs (snd (load_model E w)) model_path = Some b"
    using Suc.prems by simp
  then have "requests (load_model_times n E (snd (load_model E w))) =
               requests (snd (load_model E w)) \<and>
             fs (load_model_times n E (snd (load_model E w))) = fs (snd (load_model E w))"
    by (rule Suc.IH)
  with a show ?case by simp
qed

text \<open>
  Claim C4.  In every world in which the file \<open>my_cat_dog_model.keras\<close> exists, whatever
  its content and whether or not the resource cache has an entry, an invocation of
  \<open>load_model\<close> (and a run of its body) makes no request, and leaves the disk, the file
  and its content included, as it was.
\<close>

theorem load_model_keeps_file_on_disk:
  assumes "fs w model_path = Some b"
  shows "requests (snd (load_model E w)) = requests w \<and>
         fs (snd (load_model E w)) = fs w \<and>
         fs (snd (load_model E w)) model_path = Some b \<and>
         snd (load_model_body E w) = w"
  using assms load_model_on_disk [OF assms, of E]
  by (simp add: load_model_body_on_disk split: sum.splits)

theorem load_model_keeps_file_on_disk_witness:
  "fs truncated_file_world model_path = Some [] \<and>
   requests (snd (load_model demo_env truncated_file_world)) = [] \<and>
   fs (snd (load_model demo_env truncated_file_world)) model_path = Some []"
proof -
  have h: "fs truncated_file_world model_path = Some []"
    by (simp add: truncated_file_world_def fresh_world_def)
  show ?thesis
    using h load_model_keeps_file_on_disk [OF h, of demo_env]
    by (simp add: truncated_file_world_def fresh_world_def)
qed

text \<open>
  Claim C9.  When the file does not exist and the request is answered, with whatever
  status code and whatever content, the body of \<open>load_model\<close> makes that one request and
  writes the content of the answer to the file; so does \<open>load_model\<close> when the resource
  cache has no entry.  From the world so reached, any number of further invocations of
  \<open>load_model\<close>, under any library, make no further request and leave the file with that
  content.
\<close>

theorem load_model_writes_any_response:
  assumes "fs w model_path = None"
    and "requests_get E (length (requests w)) model_url = Inr resp"
  shows "fs (snd (load_model_body E w)) model_path = Some (content resp) \<and>
         requests (snd (load_model_body E w)) = requests w @ [model_url] \<and>
         (resource_cache w = None \<longrightarrow>
            fs (snd (load_model E w)) = fs (snd (load_model_body E w)) \<and>
            requests (snd (load_model E w)) = requests (snd (load_model_body E w))) \<and>
         (\<forall>n E'. requests (load_model_times n E' (snd (load_model_body E w))) =
                   requests w @ [model_url] \<and>
                 fs (load_model_times n E' (snd (load_model_body E w))) model_path =
                   Some (content resp))"
proof -
  have a: "fs (snd (load_model_body E w)) model_path = Some (content resp) \<and>
           requests (snd (load_model_body E w)) = requests w @ [model_url]"
    using assms by (simp add: load_model_body_download Let_def split: sum.splits)
  have b: "resource_cache w = None \<longrightarrow>
            fs (snd (load_model E w)) = fs (snd (load_model_body E w)) \<and>
            requests (snd (load_model E w)) = requests (snd (load_model_body E w))"
    by (cases "load_model_body E w") (auto simp: load_model_def split: sum.splits)
  from a b show ?thesis
    using load_model_times_on_disk [of "snd (load_model_body E w)" "content resp"] by simp
qed

theorem load_model_writes_any_response_witness:
  "fs fresh_world model_path = None \<and>
   requests_get not_found_env (length (requests fresh_world)) model_url =
     Inr \<lparr>status_code = 404, content = [0x3C, 0x68, 0x3E]\<rparr> \<and>
   resource_cache fresh_world = None \<and>
   fs (snd (load_model not_found_env fresh_world)) model_path = Some [0x3C, 0x68, 0x3E] \<and>
   requests (load_model_times 5 demo_env (snd (load_model_body not_found_env fresh_world))) =
     [model_url] \<and>
   fs (load_model_times 5 demo_env (snd (load_model_body not_found_env fresh_world))) model_path =
     Some [0x3C, 0x68, 0x3E]"
proof -
  have h1: "resource_cache fresh_world = None" and h2: "fs fresh_world model_path = None"
    by (simp_all add: fresh_world_def)
  have h3: "requests_get not_found_env (length (requests fresh_world)) model_url =
     Inr \<lparr>status_code = 404, content = [0x3C, 0x68, 0x3E]\<rparr>"
    by (simp add: not_found_env_def demo_env_def)
  show ?thesis
    using h1 h2 h3 load_model_writes_any_response [OF h2 h3] by (simp add: fresh_world_def)
qed

text \<open>What the concrete library does on a first run, and on a truncated file.\<close>

lemma load_model_first_run:
  assumes "resource_cache w = None" and "fs w model_path = None"
  shows "load_model demo_env w =
     (Inr (Some 7),
      w\<lparr>requests := requests w @ [model_url], fs := (fs w)(model_path \<mapsto> [0x50, 0x4B]),
        resource_cache := Some (Some 7)\<rparr>)"
  using assms
  by (simp add: load_model_def
      load_model_body_download [where resp = "\<lparr>status_code = 200, content = [0x50, 0x4B]\<rparr>"]
      demo_env_def Let_def)

lemma load_model_truncated:
  "load_model demo_env truncated_file_world = (Inl KerasLoadError, truncated_file_world)"
  by (simp add: load_model_def load_model_body_on_disk truncated_file_world_def fresh_world_def
      demo_env_def)

lemma script_truncated:
  "script demo_env no_widgets truncated_file_world = (Inl KerasLoadError, truncated_file_world)"
  by (simp add: script_def prog_defs load_model_truncated)

lemma load_model_not_found:
  "fst (load_model not_found_env fresh_world) = Inl KerasLoadError"
  by (simp add: load_model_def
      load_model_body_download [where resp = "\<lparr>status_code = 404, content = [0x3C, 0x68, 0x3E]\<rparr>"]
      fresh_world_def demo_env_def not_found_env_def Let_def)

text \<open>
  Claim C3, evaluated where it fails.  With an empty (truncated) model file on the disk,
  Keras raises; the exception leaves \<open>load_model\<close>, nothing is rendered, and the script,
  whose line 33 calls \<open>load_model\<close>, ends with that exception, in the world it started
  from.  The same happens on a first run when the server answers 404: the page it sends
  is written to the file and Keras raises on it.  No \<open>None\<close> is returned in either case.
\<close>

theorem load_model_exception_escapes:
  "load_model demo_env truncated_file_world = (Inl KerasLoadError, truncated_file_world) \<and>
   script demo_env no_widgets truncated_file_world =
     (Inl KerasLoadError, truncated_file_world) \<and>
   screen truncated_file_world = [] \<and>
   fst (load_model not_found_env fresh_world) = Inl KerasLoadError"
  using load_model_truncated script_truncated load_model_not_found
  by (simp add: truncated_file_world_def fresh_world_def)

subsection \<open>The upload handler\<close>

text \<open>
  Claim C7.  When a file is uploaded whose identifier equals the stored
  \<open>last_uploaded_file_id\<close>, the handler returns normally and leaves the whole world, both
  session flags included, as it was.  Conversely, whenever the handler changes the session
  state, a file was uploaded whose identifier differs from the stored one.
\<close>

theorem upload_handler_same_id:
  "(\<forall>f. up = Some f \<and> session_get w ''last_uploaded_file_id'' = PyStr (file_id f) \<longrightarrow>
        upload_handler E up w = (Inr (), w)) \<and>
   (session_state (snd (upload_handler E up w)) \<noteq> session_state w \<longrightarrow>
      (\<exists>f. up = Some f \<and> session_get w ''last_uploaded_file_id'' \<noteq> PyStr (file_id f)))"
  by (auto simp: upload_handler_def prog_defs split: option.splits)

theorem upload_handler_same_id_witness:
  "upload_handler demo_env (Some \<lparr>file_id = ''abc'', file_data = [1]\<rparr>)
     (fresh_world\<lparr>session_state := [''last_uploaded_file_id'' \<mapsto> PyStr ''abc'']\<rparr>) =
     (Inr (), fresh_world\<lparr>session_state := [''last_uploaded_file_id'' \<mapsto> PyStr ''abc'']\<rparr>) \<and>
   session_state (snd (upload_handler demo_env (Some \<lparr>file_id = ''xyz'', file_data = [1]\<rparr>)
     (fresh_world\<lparr>session_state := [''last_uploaded_file_id'' \<mapsto> PyStr ''abc'']\<rparr>))) \<noteq>
     [''last_uploaded_file_id'' \<mapsto> PyStr ''abc''] \<and>
   session_get (fresh_world\<lparr>session_state := [''last_uploaded_file_id'' \<mapsto> PyStr ''abc'']\<rparr>)
     ''last_uploaded_file_id'' \<noteq> PyStr ''xyz''"
proof -
  define W :: "nat world"
    where "W = fresh_world\<lparr>session_state := [''last_uploaded_file_id'' \<mapsto> PyStr ''abc'']\<rparr>"
  have g: "session_get W ''last_uploaded_file_id'' = PyStr ''abc''"
    by (simp add: W_def session_get_def)
  have a: "upload_handler demo_env (Some \<lparr>file_id = ''abc'', file_data = [1]\<rparr>) W = (Inr (), W)"
    using upload_handler_same_id [of "Some \<lparr>file_id = ''abc'', file_data = [1]\<rparr>" W demo_env] g
    by simp
  have "session_state
          (snd (upload_handler demo_env (Some \<lparr>file_id = ''xyz'', file_data = [1]\<rparr>) W))
          ''last_uploaded_file_id'' = Some (PyStr ''xyz'')"
    by (simp add: upload_handler_def prog_defs g Image_open_upload_def demo_env_def
        session_set_def)
  then have b: "session_state
          (snd (upload_handler demo_env (Some \<lparr>file_id = ''xyz'', file_data = [1]\<rparr>) W))
           \<noteq> session_state W"
    by (auto simp: W_def fun_eq_iff)
  then have c: "session_get W ''last_uploaded_file_id'' \<noteq> PyStr ''xyz''"
    using upload_handler_same_id [of "Some \<lparr>file_id = ''xyz'', file_data = [1]\<rparr>" W demo_env]
    by auto
  from a b c show ?thesis
    by (simp add: W_def)
qed

subsection \<open>What the page after the load leaves alone\<close>

lemma quiet_render:
  "quiet P \<Longrightarrow> u \<noteq> St_error No_se_pudo_cargar_el_modelo \<Longrightarrow> keeps P (render u)"
  by (simp add: quiet_def keeps_def render_def)

lemma quiet_session_set: "quiet P \<Longrightarrow> keeps P (session_set k v)"
  by (simp add: quiet_def keeps_def session_set_def)

lemma quiet_call_preprocess_image: "quiet P \<Longrightarrow> keeps P (call_preprocess_image E v)"
  by (simp add: quiet_def keeps_def call_preprocess_image_def split: pyval.splits)

lemma quiet_call_model_predict: "quiet P \<Longrightarrow> keeps P (call_model_predict E m t)"
  by (simp add: quiet_def keeps_def call_model_predict_def)

lemma quiet_st_image_path: "quiet P \<Longrightarrow> keeps P (st_image_path p)"
  by (simp add: quiet_def keeps_def st_image_path_def render_def)

lemma quiet_st_progress: "quiet P \<Longrightarrow> keeps P (st_progress v)"
  by (simp add: st_progress_def quiet_render keeps_raiseE)

lemma quiet_bar_chart: "quiet P \<Longrightarrow> keeps P (bar_chart ns ps)"
  by (simp add: bar_chart_def quiet_render keeps_raiseE)

lemma interpretacion_not_load_error:
  "interpretacion c p \<noteq> St_error No_se_pudo_cargar_el_modelo"
  by (simp add: interpretacion_def)

lemmas quiet_rules =
  quiet_session_set quiet_call_preprocess_image quiet_call_model_predict quiet_st_image_path
  quiet_st_progress quiet_bar_chart

lemma quiet_sidebar: "quiet P \<Longrightarrow> keeps P (sidebar E m c)"
  unfolding sidebar_def
  by (intro keeps_rules quiet_render) simp_all

lemma quiet_init_session_state: "quiet P \<Longrightarrow> keeps P init_session_state"
  unfolding init_session_state_def
  by (intro keeps_rules quiet_rules) simp_all

lemma quiet_upload_handler:
  assumes "quiet P"
  shows "keeps P (upload_handler E up)"
proof -
  have "keeps P (\<lambda>w. upload_handler E up w)"
    unfolding upload_handler_def
    by (cases up) (auto intro!: keeps_rules quiet_rules assms)
  then show ?thesis .
qed

lemma quiet_set_sample_image: "quiet P \<Longrightarrow> keeps P (set_sample_image E up p)"
  unfolding set_sample_image_def
  by (cases up) (auto intro!: keeps_rules quiet_rules)

lemma quiet_sample_column: "quiet P \<Longrightarrow> keeps P (sample_column E up k l c)"
  unfolding sample_column_def
  by (intro keeps_rules quiet_rules quiet_render quiet_set_sample_image) simp_all

lemma quiet_show_image: "quiet P \<Longrightarrow> keeps P (show_image E v)"
  unfolding show_image_def
  by (intro keeps_rules quiet_rules quiet_render) simp_all

lemma quiet_predict_image: "quiet P \<Longrightarrow> keeps P (predict_image E m v)"
  unfolding predict_image_def
  by (intro keeps_rules quiet_rules) simp_all

lemma quiet_show_results: "quiet P \<Longrightarrow> keeps P (show_results p c ps)"
  unfolding show_results_def
  by (intro keeps_rules quiet_rules quiet_render) (simp_all add: interpretacion_not_load_error)

lemma quiet_classify: "quiet P \<Longrightarrow> keeps P (classify E m v c)"
  unfolding classify_def
  by (auto intro!: keeps_rules quiet_render quiet_predict_image quiet_show_results)

lemma quiet_main_loaded: "quiet P \<Longrightarrow> keeps P (main_loaded E inp m)"
  unfolding main_loaded_def
  by (intro keeps_rules quiet_render quiet_sidebar quiet_init_session_state quiet_upload_handler
      quiet_sample_column quiet_show_image quiet_classify) simp_all

lemma render_keeps_static:
  "keeps (\<lambda>w. obs (fs w) (requests w) (resource_cache w)) (render u)"
  by (simp add: keeps_def render_def)

lemma quiet_static: "quiet (\<lambda>w. obs (fs w) (requests w) (resource_cache w))"
  by (simp add: quiet_def)

lemma quiet_no_load_error:
  "quiet (\<lambda>w. St_error No_se_pudo_cargar_el_modelo \<notin> set (screen w))"
  by (simp add: quiet_def)

subsection \<open>\<open>load_model\<close> never returns \<open>None\<close>\<close>

lemma load_model_screen: "screen (snd (load_model E w)) = screen w"
  by (simp add: load_model_def load_model_body_def prog_defs tf_keras_models_load_model_def
      http_get_def write_file_def split: sum.splits option.splits prod.splits)

lemma load_model_cases:
  assumes "resource_cache w \<noteq> Some None"
  shows "(\<exists>e. fst (load_model E w) = Inl e \<and>
              resource_cache (snd (load_model E w)) = resource_cache w) \<or>
         (\<exists>m. fst (load_model E w) = Inr (Some m) \<and>
              resource_cache (snd (load_model E w)) = Some (Some m) \<and>
              (resource_cache w = Some (Some m) \<or>
               (\<exists>b. fs (snd (load_model E w)) model_path = Some b \<and>
                    keras_load_model E b = Inr m)))"
proof (cases "resource_cache w")
  case None
  then show ?thesis
    by (simp add: load_model_def load_model_body_def prog_defs tf_keras_models_load_model_def
        http_get_def write_file_def split: sum.splits option.splits prod.splits)
next
  case (Some v)
  with assms obtain m where "v = Some m"
    by (cases v) auto
  with Some show ?thesis
    by (simp add: load_model_def)
qed

lemma main_after_load:
  assumes "resource_cache w \<noteq> Some None"
  shows "resource_cache (snd (main E inp w)) \<noteq> Some None \<and>
         (St_error No_se_pudo_cargar_el_modelo \<notin> set (screen w) \<longrightarrow>
          St_error No_se_pudo_cargar_el_modelo \<notin> set (screen (snd (main E inp w))))"
proof -
  define w1 where "w1 = w\<lparr>screen := screen w @ [St_title, St_markdown ''---'']\<rparr>"
  have m: "main E inp w =
      (case load_model E w1 of
         (Inl e, s1) \<Rightarrow> (Inl e, s1)
       | (Inr x, s1) \<Rightarrow> (case x of None \<Rightarrow> render (St_error No_se_pudo_cargar_el_modelo)
                             | Some m \<Rightarrow> main_loaded E inp m) s1)"
    by (simp add: main_def prog_defs w1_def)
  have c1: "resource_cache w1 \<noteq> Some None"
    using assms by (simp add: w1_def)
  obtain r w2 where l: "load_model E w1 = (r, w2)"
    by (cases "load_model E w1")
  have s2: "screen w2 = screen w1"
    using load_model_screen [of E w1] l by simp
  from load_model_cases [OF c1, of E] l
  consider (raised) e where "r = Inl e" "resource_cache w2 = resource_cache w1"
    | (loaded) m where "r = Inr (Some m)" "resource_cache w2 = Some (Some m)"
    by auto
  then show ?thesis
  proof cases
    case raised
    with m l s2 c1 show ?thesis
      by (simp add: w1_def)
  next
    case loaded
    have k1: "keeps (\<lambda>w. resource_cache w \<noteq> Some None) (main_loaded E inp m)"
      by (rule quiet_main_loaded [OF quiet_static [of "\<lambda>f r c. c \<noteq> Some None"]])
    have k2: "keeps (\<lambda>w. St_error No_se_pudo_cargar_el_modelo \<notin> set (screen w))
                (main_loaded E inp m)"
      by (rule quiet_main_loaded [OF quiet_no_load_error])
    from loaded m l have e: "main E inp w = main_loaded E inp m w2"
      by simp
    from k1 loaded(2) have "resource_cache (snd (main_loaded E inp m w2)) \<noteq> Some None"
      by (simp add: keeps_def)
    moreover from k2 s2 have "St_error No_se_pudo_cargar_el_modelo \<notin> set (screen w) \<longrightarrow>
          St_error No_se_pudo_cargar_el_modelo \<notin> set (screen (snd (main_loaded E inp m w2)))"
      by (simp add: keeps_def w1_def)
    ultimately show ?thesis
      using e by simp
  qed
qed

text \<open>
  Claim C10.  The body of \<open>load_model\<close> never returns \<open>None\<close>, in any world.  The
  decorated function returns what the resource cache holds or what the body returns; the
  cache is filled by the function alone, so it never holds \<open>None\<close>, and this is kept by
  \<open>load_model\<close> and by \<open>main\<close>.  In every world whose cache does not hold \<open>None\<close>,
  \<open>load_model\<close> either raises or returns a model, which is the one in the cache or the one
  Keras made of the file; and \<open>main\<close> never renders the message of its \<open>model is None\<close>
  branch.
\<close>

theorem load_model_never_returns_None:
  "fst (load_model_body E w) \<noteq> Inr None \<and>
   (resource_cache w \<noteq> Some None \<longrightarrow>
      fst (load_model E w) \<noteq> Inr None \<and>
      (\<forall>v. fst (load_model E w) = Inr v \<longrightarrow>
           (\<exists>m. v = Some m \<and>
              (resource_cache w = Some (Some m) \<or>
               (\<exists>b. fs (snd (load_model E w)) model_path = Some b \<and>
                    keras_load_model E b = Inr m)))) \<and>
      resource_cache (snd (load_model E w)) \<noteq> Some None \<and>
      resource_cache (snd (main E inp w)) \<noteq> Some None \<and>
      (St_error No_se_pudo_cargar_el_modelo \<notin> set (screen w) \<longrightarrow>
       St_error No_se_pudo_cargar_el_modelo \<notin> set (screen (snd (main E inp w)))))"
proof (intro conjI impI)
  assume a: "resource_cache w \<noteq> Some None"
  from load_model_cases [OF a, of E]
  show "fst (load_model E w) \<noteq> Inr None"
    by auto
  from load_model_cases [OF a, of E]
  show "\<forall>v. fst (load_model E w) = Inr v \<longrightarrow>
           (\<exists>m. v = Some m \<and>
              (resource_cache w = Some (Some m) \<or>
               (\<exists>b. fs (snd (load_model E w)) model_path = Some b \<and>
                    keras_load_model E b = Inr m)))"
    by auto
  from load_model_cases [OF a, of E] a
  show "resource_cache (snd (load_model E w)) \<noteq> Some None"
    by auto
  from main_after_load [OF a, of E inp]
  show "resource_cache (snd (main E inp w)) \<noteq> Some None"
    by simp
  assume "St_error No_se_pudo_cargar_el_modelo \<notin> set (screen w)"
  with main_after_load [OF a, of E inp]
  show "St_error No_se_pudo_cargar_el_modelo \<notin> set (screen (snd (main E inp w)))"
    by simp
qed (rule load_model_body_never_None)

theorem load_model_never_returns_None_witness:
  "resource_cache fresh_world \<noteq> Some None \<and>
   fst (load_model demo_env fresh_world) = Inr (Some 7) \<and>
   keras_load_model demo_env [0x50, 0x4B] = Inr 7 \<and>
   St_error No_se_pudo_cargar_el_modelo \<notin> set (screen fresh_world) \<and>
   St_error No_se_pudo_cargar_el_modelo \<notin>
     set (screen (snd (main demo_env no_widgets fresh_world)))"
proof -
  have h: "resource_cache fresh_world \<noteq> Some None"
    by (simp add: fresh_world_def)
  have s: "St_error No_se_pudo_cargar_el_modelo \<notin> set (screen fresh_world)"
    by (simp add: fresh_world_def)
  have k: "keras_load_model demo_env [0x50, 0x4B] = Inr 7"
    by (simp add: demo_env_def)
  have l: "fst (load_model demo_env fresh_world) = Inr (Some 7)"
    by (simp add: load_model_first_run fresh_world_def)
  show ?thesis
    using h s k l load_model_never_returns_None [of demo_env fresh_world no_widgets] by simp
qed

subsection \<open>The state that \<open>main\<close> keeps\<close>

lemma load_model_fs_frame:
  "p \<noteq> model_path \<Longrightarrow> keeps (\<lambda>w. fs w p = c) (load_model E)"
  by (simp add: keeps_def load_model_def load_model_body_def prog_defs
      tf_keras_models_load_model_def http_get_def write_file_def
      split: sum.splits option.splits prod.splits)

lemma main_fs_frame:
  assumes "p \<noteq> model_path"
  shows "keeps (\<lambda>w. fs w p = c) (main E inp)"
  unfolding main_def
  by (intro keeps_rules keeps_case_option load_model_fs_frame assms
      quiet_main_loaded [OF quiet_static [of "\<lambda>f r c'. f p = c"]]
      render_keeps_static [of "\<lambda>f r c'. f p = c"])

lemma commutes_bindE:
  assumes "commutes u f" and "\<And>x. commutes u (g x)"
  shows "commutes u (bindE f g)"
  unfolding commutes_def
proof
  fix s
  obtain r s1 where fs: "f s = (r, s1)"
    by (cases "f s")
  with assms(1) have fu: "f (u s) = (r, u s1)"
    by (simp add: commutes_def)
  show "bindE f g (u s) = (fst (bindE f g s), u (snd (bindE f g s)))"
  proof (cases r)
    case (Inl e)
    with fs fu show ?thesis by (simp add: bindE_def)
  next
    case (Inr x)
    with fs fu assms(2) [of x] show ?thesis by (simp add: bindE_def commutes_def)
  qed
qed

lemma commutes_thenE: "commutes u f \<Longrightarrow> commutes u g \<Longrightarrow> commutes u (thenE f g)"
  by (simp add: thenE_def commutes_bindE)

lemma commutes_returnE: "commutes u (returnE x)"
  by (simp add: commutes_def returnE_def)

lemma commutes_raiseE: "commutes u (raiseE e)"
  by (simp add: commutes_def raiseE_def)

lemma commutes_if: "commutes u f \<Longrightarrow> commutes u g \<Longrightarrow> commutes u (if c then f else g)"
  by simp

lemma commutes_state_if:
  "(\<And>s. c (u s) = c s) \<Longrightarrow> commutes u f \<Longrightarrow> commutes u g \<Longrightarrow>
   commutes u (\<lambda>s. if c s then f s else g s)"
  by (simp add: commutes_def)

lemma commutes_pure: "commutes u (\<lambda>w. (r, w))"
  by (simp add: commutes_def)

lemma commutes_case_option:
  "commutes u f \<Longrightarrow> (\<And>x. commutes u (g x)) \<Longrightarrow>
   commutes u (case v of None \<Rightarrow> f | Some x \<Rightarrow> g x)"
  by (cases v) simp_all

lemma commutes_index: "commutes u (index xs i)"
  by (simp add: index_def commutes_returnE commutes_raiseE)

lemma commutes_dict_get: "commutes u (dict_get d k)"
  by (simp add: dict_get_def commutes_returnE commutes_raiseE split: option.splits)

lemma set_key_render: "commutes (set_key k v) (render x)"
  by (simp add: commutes_def set_key_def render_def)

lemma set_key_session_set: "k \<noteq> k' \<Longrightarrow> commutes (set_key k v) (session_set k' x)"
  by (simp add: commutes_def set_key_def session_set_def fun_upd_twist)

lemma set_key_session_attr: "k \<noteq> k' \<Longrightarrow> commutes (set_key k v) (session_attr k')"
  by (simp add: commutes_def set_key_def session_attr_def split: option.splits)

lemma set_key_Image_open_upload: "commutes (set_key k v) (Image_open_upload E f)"
  by (simp add: commutes_def set_key_def Image_open_upload_def)

lemma set_key_Image_open_path: "commutes (set_key k v) (Image_open_path E p)"
  by (simp add: commutes_def set_key_def Image_open_path_def split: option.splits)

lemma set_key_call_preprocess_image: "commutes (set_key k v) (call_preprocess_image E x)"
  by (simp add: commutes_def set_key_def call_preprocess_image_def split: pyval.splits)

lemma set_key_call_model_predict: "commutes (set_key k v) (call_model_predict E m t)"
  by (simp add: commutes_def set_key_def call_model_predict_def)

lemma set_key_st_image_path: "commutes (set_key k v) (st_image_path p)"
  by (simp add: commutes_def set_key_def st_image_path_def render_def)

lemma set_key_http_get: "commutes (set_key k v) (http_get E url)"
  by (simp add: commutes_def set_key_def http_get_def)

lemma set_key_write_file: "commutes (set_key k v) (write_file p b)"
  by (simp add: commutes_def set_key_def write_file_def)

lemma set_key_keras: "commutes (set_key k v) (tf_keras_models_load_model E p)"
  by (simp add: commutes_def set_key_def tf_keras_models_load_model_def split: option.splits)

lemmas commutes_rules =
  commutes_bindE commutes_thenE commutes_returnE commutes_raiseE commutes_if commutes_pure
  commutes_case_option commutes_index commutes_dict_get
  set_key_render set_key_Image_open_upload set_key_Image_open_path
  set_key_call_preprocess_image set_key_call_model_predict set_key_st_image_path
  set_key_http_get set_key_write_file set_key_keras

lemma set_key_load_model_body: "commutes (set_key k v) (load_model_body E)"
  unfolding load_model_body_def
  by (intro commutes_rules commutes_state_if) (simp_all add: set_key_def)

lemma set_key_load_model: "commutes (set_key k v) (load_model E)"
  unfolding commutes_def
proof
  fix s
  have b: "load_model_body E (set_key k v s) =
             (fst (load_model_body E s), set_key k v (snd (load_model_body E s)))"
    using set_key_load_model_body [of k v E] by (simp add: commutes_def)
  show "load_model E (set_key k v s) = (fst (load_model E s), set_key k v (snd (load_model E s)))"
  proof (cases "resource_cache s")
    case None
    then have "resource_cache (set_key k v s) = None"
      by (simp add: set_key_def)
    with None b show ?thesis
      by (cases "load_model_body E s") (auto simp: load_model_def set_key_def split: sum.splits)
  next
    case (Some x)
    then show ?thesis
      by (simp add: load_model_def set_key_def)
  qed
qed

lemma set_key_sidebar: "commutes (set_key k v) (sidebar E m c)"
  unfolding sidebar_def
  by (intro commutes_rules)

lemma set_key_init_session_state:
  assumes "k \<noteq> ''image_to_predict''" and "k \<noteq> ''last_uploaded_file_id''"
  shows "commutes (set_key k v) init_session_state"
  unfolding init_session_state_def
  by (intro commutes_rules commutes_state_if set_key_session_set assms)
     (use assms in \<open>auto simp: set_key_def\<close>)

lemma set_key_upload_handler:
  assumes "k \<noteq> ''image_to_predict''" and "k \<noteq> ''last_uploaded_file_id''"
  shows "commutes (set_key k v) (upload_handler E up)"
proof (cases up)
  case None
  then have "upload_handler E up = returnE ()"
    by (simp add: upload_handler_def fun_eq_iff)
  then show ?thesis
    by (simp add: commutes_returnE)
next
  case (Some f)
  have "commutes (set_key k v)
     (\<lambda>w. if PyStr (file_id f) \<noteq> session_get w ''last_uploaded_file_id''
          then bindE (Image_open_upload E f) (\<lambda>img.
               thenE (session_set ''image_to_predict'' (PyImage img))
                     (session_set ''last_uploaded_file_id'' (PyStr (file_id f)))) w
          else returnE () w)"
    by (intro commutes_rules commutes_state_if set_key_session_set assms)
       (use assms in \<open>auto simp: session_get_def set_key_def\<close>)
  moreover have "upload_handler E up =
     (\<lambda>w. if PyStr (file_id f) \<noteq> session_get w ''last_uploaded_file_id''
          then bindE (Image_open_upload E f) (\<lambda>img.
               thenE (session_set ''image_to_predict'' (PyImage img))
                     (session_set ''last_uploaded_file_id'' (PyStr (file_id f)))) w
          else returnE () w)"
    using Some by (simp add: upload_handler_def fun_eq_iff)
  ultimately show ?thesis
    by simp
qed

lemma set_key_set_sample_image:
  assumes "k \<noteq> ''image_to_predict''" and "k \<noteq> ''last_uploaded_file_id''"
  shows "commutes (set_key k v) (set_sample_image E up p)"
  unfolding set_sample_image_def
  by (intro commutes_rules set_key_session_set assms)

lemma set_key_sample_column:
  assumes "k \<noteq> ''image_to_predict''" and "k \<noteq> ''last_uploaded_file_id''"
  shows "commutes (set_key k v) (sample_column E up key l c)"
  unfolding sample_column_def
  by (intro commutes_rules set_key_set_sample_image assms)

lemma set_key_show_image: "commutes (set_key k v) (show_image E x)"
  unfolding show_image_def
  by (intro commutes_rules)

lemma set_key_predict_image: "commutes (set_key k v) (predict_image E m x)"
  unfolding predict_image_def
  by (intro commutes_rules)

lemma set_key_show_results: "commutes (set_key k v) (show_results p c ps)"
  unfolding show_results_def st_progress_def bar_chart_def
  by (intro commutes_rules)

lemma set_key_classify: "commutes (set_key k v) (classify E m x c)"
  unfolding classify_def
  by (intro commutes_rules set_key_predict_image) (auto intro: set_key_show_results)

lemma set_key_main_loaded:
  assumes "k \<noteq> ''image_to_predict''" and "k \<noteq> ''last_uploaded_file_id''"
  shows "commutes (set_key k v) (main_loaded E inp m)"
  unfolding main_loaded_def
  by (intro commutes_rules set_key_sidebar set_key_init_session_state set_key_upload_handler
      set_key_sample_column set_key_session_attr set_key_show_image set_key_classify assms)

lemma set_key_main:
  assumes "k \<noteq> ''image_to_predict''" and "k \<noteq> ''last_uploaded_file_id''"
  shows "commutes (set_key k v) (main E inp)"
  unfolding main_def
  by (intro commutes_rules set_key_load_model set_key_main_loaded assms)

lemma load_model_hit: "resource_cache w = Some v \<Longrightarrow> load_model E w = (Inr v, w)"
  by (simp add: load_model_def)

lemma main_loaded_static:
  "fs (snd (main_loaded E inp m w)) = fs w \<and>
   requests (snd (main_loaded E inp m w)) = requests w \<and>
   resource_cache (snd (main_loaded E inp m w)) = resource_cache w"
  using quiet_main_loaded
    [OF quiet_static [of "\<lambda>f r c. f = fs w \<and> r = requests w \<and> c = resource_cache w"], of E inp m]
  by (simp add: keeps_def)

text \<open>
  Claim C5, as the code has it.  The claim as stated fails.  On a first run \<open>main\<close>,
  through \<open>load_model\<close>, fills the process-wide resource cache and writes the model file,
  and so does the script, whose line 33 does it before \<open>main\<close> is called.  And \<open>main\<close>
  reads the cache: with an entry in it, the same run makes no request.
\<close>

theorem main_fills_cache_and_disk:
  "resource_cache fresh_world = None \<and>
   resource_cache (snd (main demo_env no_widgets fresh_world)) = Some (Some 7) \<and>
   resource_cache (snd (script demo_env no_widgets fresh_world)) = Some (Some 7) \<and>
   fs fresh_world model_path = None \<and>
   fs (snd (main demo_env no_widgets fresh_world)) model_path = Some [0x50, 0x4B] \<and>
   fs (snd (script demo_env no_widgets fresh_world)) model_path = Some [0x50, 0x4B] \<and>
   requests (snd (main demo_env no_widgets fresh_world)) = [model_url] \<and>
   requests (snd (main demo_env no_widgets (fresh_world\<lparr>resource_cache := Some (Some 7)\<rparr>))) = []"
proof -
  define w2 :: "nat world" where
    "w2 = fresh_world\<lparr>screen := [St_title, St_markdown ''---''], requests := [model_url],
            fs := [model_path \<mapsto> [0x50, 0x4B]], resource_cache := Some (Some 7)\<rparr>"
  define w3 :: "nat world" where
    "w3 = fresh_world\<lparr>screen := [St_title, St_markdown ''---''],
            resource_cache := Some (Some 7)\<rparr>"
  have m: "main demo_env no_widgets fresh_world = main_loaded demo_env no_widgets 7 w2"
    by (simp add: main_def prog_defs load_model_first_run fresh_world_def w2_def)
  have s: "script demo_env no_widgets fresh_world = main_loaded demo_env no_widgets 7 w2"
    by (simp add: script_def main_def prog_defs load_model_first_run load_model_hit
        fresh_world_def w2_def)
  have h: "main demo_env no_widgets (fresh_world\<lparr>resource_cache := Some (Some 7)\<rparr>) =
             main_loaded demo_env no_widgets 7 w3"
    by (simp add: main_def prog_defs load_model_hit fresh_world_def w3_def)
  show ?thesis
    using main_loaded_static [of demo_env no_widgets 7 w2]
      main_loaded_static [of demo_env no_widgets 7 w3]
    by (simp add: m s h) (simp add: w2_def w3_def fresh_world_def)
qed

text \<open>
  Claim C5, amended.  Besides the resource cache and the model file, which \<open>load_model\<close>
  maintains, the state that \<open>main\<close> keeps is the two session flags.  For every other key
  of the session state: setting or removing the key before a run of \<open>main\<close> gives the
  same result, and the same final world, as setting or removing it after the run, so
  \<open>main\<close> neither creates, reads nor writes the key, and the key has after the run the
  value it had before.  And no file other than the model file is created or changed.
\<close>

theorem main_session_state_frame:
  assumes "k \<noteq> ''image_to_predict''" and "k \<noteq> ''last_uploaded_file_id''"
  shows "main E inp (set_key k v w) = (fst (main E inp w), set_key k v (snd (main E inp w))) \<and>
         session_state (snd (main E inp w)) k = session_state w k \<and>
         (\<forall>p. p \<noteq> model_path \<longrightarrow> fs (snd (main E inp w)) p = fs w p)"
proof -
  have c: "\<And>v. main E inp (set_key k v w) =
                (fst (main E inp w), set_key k v (snd (main E inp w)))"
    using set_key_main [OF assms, of _ E inp] by (simp add: commutes_def)
  have "set_key k (session_state w k) w = w"
    by (simp add: set_key_def)
  with c [of "session_state w k"]
  have "snd (main E inp w) = set_key k (session_state w k) (snd (main E inp w))"
    by (metis snd_conv)
  then have "session_state (snd (main E inp w)) k =
             session_state (set_key k (session_state w k) (snd (main E inp w))) k"
    by simp
  then have s: "session_state (snd (main E inp w)) k = session_state w k"
    by (simp add: set_key_def)
  have "\<forall>p. p \<noteq> model_path \<longrightarrow> fs (snd (main E inp w)) p = fs w p"
    using main_fs_frame [of _ "fs w _" E inp] by (auto simp: keeps_def)
  with c s show ?thesis
    by simp
qed

theorem main_session_state_frame_witness:
  "''theme'' \<noteq> ''image_to_predict'' \<and> ''theme'' \<noteq> ''last_uploaded_file_id'' \<and>
   ''cat.jpg'' \<noteq> model_path \<and>
   session_state (snd (main demo_env no_widgets
      (fresh_world\<lparr>session_state := [''theme'' \<mapsto> PyStr ''dark'']\<rparr>))) ''theme'' =
     Some (PyStr ''dark'') \<and>
   fs (snd (main demo_env no_widgets
      (fresh_world\<lparr>session_state := [''theme'' \<mapsto> PyStr ''dark'']\<rparr>))) ''cat.jpg'' = None"
proof -
  have h: "''theme'' \<noteq> ''image_to_predict''" "''theme'' \<noteq> ''last_uploaded_file_id''"
    by simp_all
  have p: "''cat.jpg'' \<noteq> model_path"
    by (simp add: model_path_def)
  show ?thesis
    using p main_session_state_frame [OF h, of demo_env no_widgets None
        "fresh_world\<lparr>session_state := [''theme'' \<mapsto> PyStr ''dark'']\<rparr>"]
    by (simp add: fresh_world_def)
qed

end
